theory Spec2Isabelle
  imports Complex_Main "HOL-Library.AList" "HOL-Library.Sublist"
    "HOL-Library.Char_ord" "HOL-Library.List_Lexorder" "HOL-Library.Product_Lexorder"
begin

section \<open>Movie Encyclopedia: the storage facade over two backends\<close>

text \<open>
  The program (\<^verbatim>\<open>movieproject.py\<close> and its earlier variant \<^verbatim>\<open>movies2.py\<close>) is a
  class \<^verbatim>\<open>MovieEncyclopedia\<close> that forwards each operation to a document collection
  (pymongo) or to a key-value table (boto3), chosen by \<^verbatim>\<open>db_choice\<close>, and a form class
  \<^verbatim>\<open>MovieEncyclopediaGUI\<close> that calls it.

  The embedding follows the methods line by line. What the program calls but does not
  contain is modelled as follows.
  \<^item> Python values are a datatype; a dict is an association list (insertion order,
    \<^verbatim>\<open>d[k] = v\<close> replaces in place or appends).
  \<^item> An exception is a value; every method returns the exception it raised, if any,
    together with the state it left behind.
  \<^item> The two stores are lists of documents held in the state. A request sent to a
    store first consults \<open>faults\<close>: the head of that list says whether the store
    answers this request with an exception (unreachable, throttled, rejected) or serves
    it. An empty list means that every further request is served.
  \<^item> Rounding to a binary float, printing of values, parsing of numerals and the
    pattern engine of the document store are parameters, collected in \<open>runtime\<close>.
    Floats and decimals carry their (finite) numeric value as a rational.
\<close>

subsection \<open>Values, dictionaries, exceptions\<close>

datatype pyval =
    PNone
  | PStr string
  | PInt int
  | PFloat rat
  | PDecimal rat
  | PList "pyval list"
  | PObjectId nat

type_synonym pydict = "(string \<times> pyval) list"

datatype exn =
    KeyError string
  | TypeError
  | ValueError
  | AttributeError
  | InvalidOperation
  | DecimalSignal
  | InvalidDocument
  | OverflowError
  | DuplicateKeyError
  | BackendError nat

text \<open>
  \<open>KeyError k\<close> is the \<^verbatim>\<open>KeyError\<close> for the missing key \<open>k\<close>.
  \<open>InvalidOperation\<close> is \<^verbatim>\<open>decimal.InvalidOperation\<close>, and \<open>DecimalSignal\<close> is any of
  \<^verbatim>\<open>decimal.Inexact\<close>, \<^verbatim>\<open>Rounded\<close>, \<^verbatim>\<open>Overflow\<close>, \<^verbatim>\<open>Underflow\<close> and \<^verbatim>\<open>Clamped\<close>; all
  of these are subclasses of \<^verbatim>\<open>ArithmeticError\<close>. \<open>InvalidDocument\<close>, \<open>OverflowError\<close>
  and \<open>DuplicateKeyError\<close> are raised by pymongo; \<open>BackendError n\<close> stands for any exception a store answers a request with.
  All of them are subclasses of \<^verbatim>\<open>Exception\<close>; only \<open>ValueError\<close> is a
  \<^verbatim>\<open>ValueError\<close>.
\<close>

record runtime =
  float_of_decimal :: "rat \<Rightarrow> rat"
  decimal_of_repr :: "rat \<Rightarrow> rat"
  float_of_str :: "string \<Rightarrow> rat option"
  decimal_of_str :: "string \<Rightarrow> rat option"
  str_of :: "pyval \<Rightarrow> string"
  str_of_exn :: "exn \<Rightarrow> string"
  regex_i :: "string \<Rightarrow> (string \<Rightarrow> bool) option"
  ddb_number_ok :: "rat \<Rightarrow> bool"

text \<open>
  \<open>float_of_decimal\<close> is \<^verbatim>\<open>float(d)\<close> for a Decimal (and an int), \<open>decimal_of_repr\<close> is
  \<^verbatim>\<open>Decimal(str(x))\<close> for a float, \<open>float_of_str\<close> and \<open>decimal_of_str\<close> are
  \<^verbatim>\<open>float(s)\<close> and \<^verbatim>\<open>Decimal(s)\<close> for a string (\<open>None\<close> when the string is no
  numeral), \<open>str_of\<close> is \<^verbatim>\<open>str\<close>, \<open>str_of_exn\<close> the text of an exception, and
  \<open>regex_i p\<close> compiles the pattern \<open>p\<close> with option \<^verbatim>\<open>i\<close> into its search predicate
  (\<open>None\<close> when the pattern does not compile). \<open>ddb_number_ok d\<close> says whether the
  number context of boto3 (38 significant digits, exponents from -128 to 126, trapping
  \<^verbatim>\<open>Inexact\<close>, \<^verbatim>\<open>Rounded\<close>, \<^verbatim>\<open>Overflow\<close>, \<^verbatim>\<open>Underflow\<close> and \<^verbatim>\<open>Clamped\<close>) takes the
  number \<open>d\<close> as it is; it refuses \<^verbatim>\<open>Decimal(8.1)\<close>, the exact value of that float,
  which has 50 digits. The context looks at the digits of the Decimal it is given; the
  model knows a Decimal by its value, and the parameter stands for the answer of the
  context for the Decimal at hand.
\<close>

definition dict_get :: "pydict \<Rightarrow> string \<Rightarrow> pyval option" where
  "dict_get d k = map_of d k"

definition dict_set :: "pydict \<Rightarrow> string \<Rightarrow> pyval \<Rightarrow> pydict" where
  "dict_set d k v = AList.update k v d"

definition dict_del :: "pydict \<Rightarrow> string \<Rightarrow> pydict" where
  "dict_del d k = AList.delete k d"

definition subscript :: "pydict \<Rightarrow> string \<Rightarrow> exn + pyval" where
  "subscript d k = (case dict_get d k of None \<Rightarrow> Inl (KeyError k) | Some v \<Rightarrow> Inr v)"

fun py_float :: "runtime \<Rightarrow> pyval \<Rightarrow> exn + rat" where
  "py_float rt (PFloat x) = Inr x"
| "py_float rt (PDecimal d) = Inr (float_of_decimal rt d)"
| "py_float rt (PInt i) = Inr (float_of_decimal rt (of_int i))"
| "py_float rt (PStr s) = (case float_of_str rt s of None \<Rightarrow> Inl ValueError | Some x \<Rightarrow> Inr x)"
| "py_float rt PNone = Inl TypeError"
| "py_float rt (PList vs) = Inl TypeError"
| "py_float rt (PObjectId n) = Inl TypeError"

subsection \<open>Strings\<close>

fun split_on :: "char \<Rightarrow> string \<Rightarrow> string list" where
  "split_on c [] = [[]]"
| "split_on c (x # xs) =
     (if x = c then [] # split_on c xs
      else (case split_on c xs of [] \<Rightarrow> [[x]] | w # ws \<Rightarrow> (x # w) # ws))"

definition is_space :: "char \<Rightarrow> bool" where
  "is_space c =
     (c \<in> set [CHR 0x09, CHR 0x0A, CHR 0x0B, CHR 0x0C, CHR 0x0D, CHR 0x1C, CHR 0x1D, CHR 0x1E,
                CHR 0x1F, CHR 0x20, CHR 0x85, CHR 0xA0])"

text \<open>
  A character is a code point below 256; \<open>is_space\<close> lists those that \<^verbatim>\<open>str.strip\<close>
  removes.
\<close>

definition strip :: "string \<Rightarrow> string" where
  "strip s = rev (dropWhile is_space (rev (dropWhile is_space s)))"

fun contains_str :: "string \<Rightarrow> string \<Rightarrow> bool" where
  "contains_str p [] = (p = [])"
| "contains_str p (c # cs) = (prefix p (c # cs) \<or> contains_str p cs)"

definition lower_char :: "char \<Rightarrow> char" where
  "lower_char c =
     (let n = (of_char c :: nat) in if 65 \<le> n \<and> n \<le> 90 then char_of (n + 32) else c)"

definition lower :: "string \<Rightarrow> string" where
  "lower s = map lower_char s"

definition contains_ci :: "string \<Rightarrow> string \<Rightarrow> bool" where
  "contains_ci p s = contains_str (lower p) (lower s)"

subsection \<open>The state: the facade object and the two stores\<close>

record state =
  db_choice :: string
  movies :: "pydict list"
  next_oid :: nat
  table :: "pydict list"
  page :: nat
  faults :: "exn option list"
  stdout :: "string list"

text \<open>
  \<open>movies\<close> is the collection \<^verbatim>\<open>movie_encyclopedia_db.movies\<close> in natural order,
  \<open>next_oid\<close> the next fresh \<^verbatim>\<open>ObjectId\<close>; \<open>table\<close> is the table \<^verbatim>\<open>Movies\<close> in the
  order a scan walks it, and one scan request examines \<open>Suc (page s)\<close> items;
  \<open>stdout\<close> collects what \<^verbatim>\<open>print\<close> writes.
\<close>

definition request :: "state \<Rightarrow> exn option \<times> state" where
  "request s = (case faults s of [] \<Rightarrow> (None, s) | f # fs \<Rightarrow> (f, s\<lparr>faults := fs\<rparr>))"

definition print :: "string \<Rightarrow> state \<Rightarrow> state" where
  "print line s = s\<lparr>stdout := stdout s @ [line]\<rparr>"

subsection \<open>The document store (pymongo)\<close>

fun bson_error :: "pyval \<Rightarrow> exn option" where
  "bson_error (PDecimal d) = Some InvalidDocument"
| "bson_error (PInt i) = (if - (2 ^ 63) \<le> i \<and> i < 2 ^ 63 then None else Some OverflowError)"
| "bson_error (PList vs) =
     (case filter (\<lambda>r. r \<noteq> None) (map bson_error vs) of [] \<Rightarrow> None | r # rs \<Rightarrow> r)"
| "bson_error v = None"

definition bson_ok :: "pyval \<Rightarrow> bool" where
  "bson_ok v = (bson_error v = None)"

fun doc_error :: "pydict \<Rightarrow> exn option" where
  "doc_error [] = None"
| "doc_error ((k, v) # d) = (case bson_error v of Some e \<Rightarrow> Some e | None \<Rightarrow> doc_error d)"

text \<open>
  The encoder of the driver runs before anything is sent: a \<^verbatim>\<open>decimal.Decimal\<close> cannot
  be encoded into a document (\<^verbatim>\<open>InvalidDocument\<close>), nor an int outside eight bytes
  (\<^verbatim>\<open>OverflowError\<close>); the first value it cannot encode decides.
\<close>

definition mongo_eq :: "string \<Rightarrow> pyval option \<Rightarrow> bool" where
  "mongo_eq x fv =
     (case fv of Some (PStr s) \<Rightarrow> s = x
               | Some (PList vs) \<Rightarrow> List.member vs (PStr x)
               | _ \<Rightarrow> False)"

fun str_matches :: "(string \<Rightarrow> bool) \<Rightarrow> pyval \<Rightarrow> bool" where
  "str_matches m (PStr s) = m s"
| "str_matches m v = False"

definition mongo_regex :: "(string \<Rightarrow> bool) \<Rightarrow> pyval option \<Rightarrow> bool" where
  "mongo_regex m fv =
     (case fv of Some (PStr s) \<Rightarrow> m s
               | Some (PList vs) \<Rightarrow> list_ex (str_matches m) vs
               | _ \<Rightarrow> False)"

text \<open>
  The filter \<^verbatim>\<open>{k: x}\<close> selects a document whose field \<open>k\<close> is the string \<open>x\<close> or an
  array with the element \<open>x\<close>; \<^verbatim>\<open>{k: {'$regex': p, '$options': 'i'}}\<close> selects one whose
  field is a string the pattern matches, or an array with such an element.
\<close>

definition with_id :: "pydict \<Rightarrow> nat \<Rightarrow> pydict" where
  "with_id d n = (case dict_get d ''_id'' of None \<Rightarrow> d @ [(''_id'', PObjectId n)] | Some v \<Rightarrow> d)"

definition id_taken :: "pydict list \<Rightarrow> pydict \<Rightarrow> bool" where
  "id_taken coll d = list_ex (\<lambda>e. dict_get e ''_id'' = dict_get d ''_id'') coll"

definition mongo_drop :: "state \<Rightarrow> exn option \<times> state" where
  "mongo_drop s =
     (case request s of
        (Some e, s1) \<Rightarrow> (Some e, s1)
      | (None, s1) \<Rightarrow> (None, s1\<lparr>movies := []\<rparr>))"

definition mongo_insert_one :: "pydict \<Rightarrow> state \<Rightarrow> exn option \<times> pydict \<times> state" where
  "mongo_insert_one d s =
     (let d1 = with_id d (next_oid s); s1 = s\<lparr>next_oid := Suc (next_oid s)\<rparr> in
      case doc_error d1 of
        Some e \<Rightarrow> (Some e, d1, s1)
      | None \<Rightarrow>
          (case request s1 of
             (Some e, s2) \<Rightarrow> (Some e, d1, s2)
           | (None, s2) \<Rightarrow>
               if id_taken (movies s2) d1 then (Some DuplicateKeyError, d1, s2)
               else (None, d1, s2\<lparr>movies := movies s2 @ [d1]\<rparr>)))"

fun with_ids :: "pydict list \<Rightarrow> nat \<Rightarrow> pydict list" where
  "with_ids [] n = []"
| "with_ids (d # ds) n = with_id d n # with_ids ds (Suc n)"

fun insert_all :: "pydict list \<Rightarrow> pydict list \<Rightarrow> exn option \<times> pydict list" where
  "insert_all coll [] = (None, coll)"
| "insert_all coll (d # ds) =
     (if id_taken coll d then (Some DuplicateKeyError, coll) else insert_all (coll @ [d]) ds)"

definition mongo_insert_many :: "pydict list \<Rightarrow> state \<Rightarrow> exn option \<times> state" where
  "mongo_insert_many ds s =
     (if ds = [] then (Some TypeError, s)
      else
        (let ds1 = with_ids ds (next_oid s); s1 = s\<lparr>next_oid := next_oid s + length ds\<rparr> in
         case filter (\<lambda>r. r \<noteq> None) (map doc_error ds1) of
           r # rs \<Rightarrow> (r, s1)
         | [] \<Rightarrow>
             (case request s1 of
                (Some e, s2) \<Rightarrow> (Some e, s2)
              | (None, s2) \<Rightarrow>
                  (case insert_all (movies s2) ds1 of
                     (r, coll) \<Rightarrow> (r, s2\<lparr>movies := coll\<rparr>)))))"

text \<open>
  \<^verbatim>\<open>insert_many\<close> refuses an empty list with a \<^verbatim>\<open>TypeError\<close>; an ordered bulk insert
  stops at the first duplicate \<^verbatim>\<open>_id\<close> and keeps what it has written.
\<close>

subsection \<open>The key-value store (boto3)\<close>

fun ddb_value :: "runtime \<Rightarrow> pyval \<Rightarrow> exn + pyval" where
  "ddb_value rt PNone = Inr PNone"
| "ddb_value rt (PStr s) = Inr (PStr s)"
| "ddb_value rt (PInt i) =
     (if ddb_number_ok rt (of_int i) then Inr (PDecimal (of_int i)) else Inl DecimalSignal)"
| "ddb_value rt (PFloat x) = Inl TypeError"
| "ddb_value rt (PDecimal d) =
     (if ddb_number_ok rt d then Inr (PDecimal d) else Inl DecimalSignal)"
| "ddb_value rt (PList vs) =
     (case filter isl (map (ddb_value rt) vs) of
        [] \<Rightarrow> Inr (PList (map (\<lambda>v. projr (ddb_value rt v)) vs))
      | r # rs \<Rightarrow> Inl (projl r))"
| "ddb_value rt (PObjectId n) = Inl TypeError"

fun ddb_item :: "runtime \<Rightarrow> pydict \<Rightarrow> exn + pydict" where
  "ddb_item rt [] = Inr []"
| "ddb_item rt ((k, v) # d) =
     (case ddb_value rt v of Inl e \<Rightarrow> Inl e
      | Inr w \<Rightarrow> (case ddb_item rt d of Inl e \<Rightarrow> Inl e | Inr d1 \<Rightarrow> Inr ((k, w) # d1)))"

text \<open>
  \<open>ddb_value rt v\<close> is what the table holds, and later returns, for the Python value
  \<open>v\<close>: every number comes back as a Decimal. The serializer refuses a float (and any
  type it does not know) with a \<^verbatim>\<open>TypeError\<close>, and a number that its context does not
  take as it is with the signal of the context, before anything is sent.
\<close>

definition has_name :: "string \<Rightarrow> pydict \<Rightarrow> bool" where
  "has_name n item = (dict_get item ''name'' = Some (PStr n))"

fun ddb_store :: "pydict \<Rightarrow> pydict list \<Rightarrow> pydict list" where
  "ddb_store item [] = [item]"
| "ddb_store item (x # xs) =
     (if dict_get x ''name'' = dict_get item ''name'' then item # xs else x # ddb_store item xs)"

definition ddb_put_item :: "runtime \<Rightarrow> pydict \<Rightarrow> state \<Rightarrow> exn option \<times> state" where
  "ddb_put_item rt item s =
     (case ddb_item rt item of
        Inl e \<Rightarrow> (Some e, s)
      | Inr it \<Rightarrow>
          (case request s of
             (Some e, s1) \<Rightarrow> (Some e, s1)
           | (None, s1) \<Rightarrow> (None, s1\<lparr>table := ddb_store it (table s1)\<rparr>)))"

subsection \<open>Bulk load\<close>

record dataframe =
  columns :: "string list"
  rows :: "pydict list"

text \<open>
  \<^verbatim>\<open>pd.read_csv\<close> is outside the program: the frame it returns is the input. Every row
  has a cell for every column; an empty cell is a float (NaN), not a string.
\<close>

fun is_str :: "pyval option \<Rightarrow> bool" where
  "is_str (Some (PStr s)) = True"
| "is_str v = False"

fun split_cell :: "pyval option \<Rightarrow> pyval" where
  "split_cell (Some (PStr s)) = PList (map PStr (split_on CHR '','' s))"
| "split_cell v = PNone"

definition apply_split :: "string \<Rightarrow> dataframe \<Rightarrow> exn + dataframe" where
  "apply_split c df =
     (if \<not> List.member (columns df) c then Inl (KeyError c)
      else if \<not> list_all (\<lambda>r. is_str (dict_get r c)) (rows df) then Inl AttributeError
      else Inr (df\<lparr>rows := map (\<lambda>r. dict_set r c (split_cell (dict_get r c))) (rows df)\<rparr>))"

fun first_or_None :: "pyval \<Rightarrow> exn + pyval" where
  "first_or_None (PList (v # vs)) = Inr v"
| "first_or_None (PStr (c # cs)) = Inr (PStr [c])"
| "first_or_None (PInt i) = (if i = 0 then Inr (PStr ''None'') else Inl TypeError)"
| "first_or_None (PFloat x) = (if x = 0 then Inr (PStr ''None'') else Inl TypeError)"
| "first_or_None (PDecimal d) = (if d = 0 then Inr (PStr ''None'') else Inl TypeError)"
| "first_or_None (PObjectId n) = Inl TypeError"
| "first_or_None v = Inr (PStr ''None'')"

definition make_item :: "runtime \<Rightarrow> pydict \<Rightarrow> exn + pydict" where
  "make_item rt row =
     (case subscript row ''genre'' of Inl e \<Rightarrow> Inl e | Inr g \<Rightarrow>
      case first_or_None g of Inl e \<Rightarrow> Inl e | Inr primary_genre \<Rightarrow>
      case subscript row ''name'' of Inl e \<Rightarrow> Inl e | Inr nm \<Rightarrow>
      case subscript row ''year'' of Inl e \<Rightarrow> Inl e | Inr yr \<Rightarrow>
      case subscript row ''rating'' of Inl e \<Rightarrow> Inl e | Inr rating \<Rightarrow>
      case subscript row ''certificate'' of Inl e \<Rightarrow> Inl e | Inr cert \<Rightarrow>
      case subscript row ''casts'' of Inl e \<Rightarrow> Inl e | Inr casts \<Rightarrow>
      case subscript row ''directors'' of Inl e \<Rightarrow> Inl e | Inr directors \<Rightarrow>
        Inr [(''name'', nm), (''year'', PStr (str_of rt yr)), (''rating'', PStr (str_of rt rating)),
             (''certificate'', cert), (''genre'', g), (''primary_genre'', primary_genre),
             (''casts'', casts), (''directors'', directors)])"

fun flush :: "pydict list \<Rightarrow> state \<Rightarrow> exn option \<times> state" where
  "flush [] s = (None, s)"
| "flush (item # buf) s =
     (case request s of
        (Some e, s1) \<Rightarrow> (Some e, s1)
      | (None, s1) \<Rightarrow> (None, s1\<lparr>table := foldl (\<lambda>t it. ddb_store it t) (table s1) (item # buf)\<rparr>))"

fun batch_put :: "runtime \<Rightarrow> pydict list \<Rightarrow> pydict list \<Rightarrow> state \<Rightarrow> exn option \<times> state" where
  "batch_put rt [] buf s = flush buf s"
| "batch_put rt (row # rest) buf s =
     (case make_item rt row of
        Inl e \<Rightarrow> (case flush buf s of (r, s1) \<Rightarrow> (Some e, s1))
      | Inr item \<Rightarrow>
          (case ddb_item rt item of
             Inl e \<Rightarrow> (case flush buf s of (r, s1) \<Rightarrow> (Some e, s1))
           | Inr it \<Rightarrow>
               if 25 \<le> length (buf @ [it])
               then (case flush (buf @ [it]) s of
                       (Some e, s1) \<Rightarrow> (Some e, s1)
                     | (None, s1) \<Rightarrow> batch_put rt rest [] s1)
               else batch_put rt rest (buf @ [it]) s))"

text \<open>
  The batch writer of boto3 buffers the items it is given, sends the buffer when it
  holds 25 items and again when the \<^verbatim>\<open>with\<close> block is left.
\<close>

definition load_movies_from_csv :: "runtime \<Rightarrow> dataframe \<Rightarrow> state \<Rightarrow> exn option \<times> state" where
  "load_movies_from_csv rt df s =
     (case apply_split ''casts'' df of Inl e \<Rightarrow> (Some e, s) | Inr df1 \<Rightarrow>
      case apply_split ''directors'' df1 of Inl e \<Rightarrow> (Some e, s) | Inr df2 \<Rightarrow>
      case apply_split ''genre'' df2 of Inl e \<Rightarrow> (Some e, s) | Inr df3 \<Rightarrow>
        if db_choice s = ''mongodb'' then
          (case mongo_drop s of
             (Some e, s1) \<Rightarrow> (Some e, s1)
           | (None, s1) \<Rightarrow>
               (case mongo_insert_many (rows df3) s1 of
                  (Some e, s2) \<Rightarrow> (Some e, s2)
                | (None, s2) \<Rightarrow>
                    if db_choice s2 = ''dynamodb'' then batch_put rt (rows df3) [] s2
                    else (None, s2)))
        else (None, s))"

subsection \<open>Single-record operations of the document store\<close>

fun update_first :: "('a \<Rightarrow> bool) \<Rightarrow> ('a \<Rightarrow> 'a) \<Rightarrow> 'a list \<Rightarrow> 'a list" where
  "update_first p f [] = []"
| "update_first p f (x # xs) = (if p x then f x # xs else x # update_first p f xs)"

fun remove_first :: "('a \<Rightarrow> bool) \<Rightarrow> 'a list \<Rightarrow> 'a list" where
  "remove_first p [] = []"
| "remove_first p (x # xs) = (if p x then xs else x # remove_first p xs)"

fun set_fields :: "pydict \<Rightarrow> pydict \<Rightarrow> pydict" where
  "set_fields [] d = d"
| "set_fields ((k, v) # kvs) d = set_fields kvs (dict_set d k v)"

definition named :: "string \<Rightarrow> pydict \<Rightarrow> bool" where
  "named n d = mongo_eq n (dict_get d ''name'')"

definition mongo_update_one :: "string \<Rightarrow> pydict \<Rightarrow> state \<Rightarrow> exn option \<times> state" where
  "mongo_update_one n ud s =
     (case doc_error ud of
        Some e \<Rightarrow> (Some e, s)
      | None \<Rightarrow>
          (case request s of
             (Some e, s1) \<Rightarrow> (Some e, s1)
           | (None, s1) \<Rightarrow>
               (None, s1\<lparr>movies := update_first (named n) (set_fields ud) (movies s1)\<rparr>)))"

definition mongo_delete_one :: "string \<Rightarrow> state \<Rightarrow> (exn + nat) \<times> state" where
  "mongo_delete_one n s =
     (case request s of
        (Some e, s1) \<Rightarrow> (Inl e, s1)
      | (None, s1) \<Rightarrow>
          (Inr (if list_ex (named n) (movies s1) then 1 else 0),
           s1\<lparr>movies := remove_first (named n) (movies s1)\<rparr>))"

fun bson_key :: "pyval \<Rightarrow> nat \<times> rat \<times> string" where
  "bson_key PNone = (1, 0, [])"
| "bson_key (PInt i) = (2, of_int i, [])"
| "bson_key (PFloat x) = (2, x, [])"
| "bson_key (PDecimal d) = (2, d, [])"
| "bson_key (PStr s) = (3, 0, s)"
| "bson_key (PList vs) = (5, 0, [])"
| "bson_key (PObjectId n) = (7, of_nat n, [])"

definition rating_sort_key :: "pydict \<Rightarrow> nat \<times> rat \<times> string" where
  "rating_sort_key d =
     (case dict_get d ''rating'' of
        None \<Rightarrow> (1, 0, [])
      | Some (PList []) \<Rightarrow> (0, 0, [])
      | Some (PList (v # vs)) \<Rightarrow> foldl max (bson_key v) (map bson_key vs)
      | Some v \<Rightarrow> bson_key v)"

text \<open>
  The store compares values of different types by type first (an empty array, then
  null and a missing field, numbers, strings, arrays, object ids), numbers by value and
  strings bytewise; a descending sort takes the greatest element of an array.
\<close>

definition sort_desc :: "('a \<Rightarrow> 'k::linorder) \<Rightarrow> 'a list \<Rightarrow> 'a list" where
  "sort_desc f xs = rev (sort_key f (rev xs))"

definition project :: "pydict \<Rightarrow> pydict" where
  "project d = dict_del d ''_id''"

definition mongo_find_sorted :: "(pydict \<Rightarrow> bool) \<Rightarrow> state \<Rightarrow> pydict list" where
  "mongo_find_sorted p s = map project (take 20 (sort_desc rating_sort_key (filter p (movies s))))"

definition mongo_find_regex ::
    "runtime \<Rightarrow> string \<Rightarrow> string \<Rightarrow> state \<Rightarrow> (exn + pydict list) \<times> state" where
  "mongo_find_regex rt key pat s =
     (case request s of
        (Some e, s1) \<Rightarrow> (Inl e, s1)
      | (None, s1) \<Rightarrow>
          (case regex_i rt pat of
             None \<Rightarrow> (Inl (BackendError 51091), s1)
           | Some m \<Rightarrow> (Inr (mongo_find_sorted (\<lambda>d. mongo_regex m (dict_get d key)) s1), s1)))"

definition mongo_find_eq :: "string \<Rightarrow> string \<Rightarrow> state \<Rightarrow> (exn + pydict list) \<times> state" where
  "mongo_find_eq key x s =
     (case request s of
        (Some e, s1) \<Rightarrow> (Inl e, s1)
      | (None, s1) \<Rightarrow> (Inr (mongo_find_sorted (\<lambda>d. mongo_eq x (dict_get d key)) s1), s1))"

definition mongo_find_one_regex ::
    "runtime \<Rightarrow> string \<Rightarrow> string \<Rightarrow> state \<Rightarrow> (exn + pydict option) \<times> state" where
  "mongo_find_one_regex rt key pat s =
     (case request s of
        (Some e, s1) \<Rightarrow> (Inl e, s1)
      | (None, s1) \<Rightarrow>
          (case regex_i rt pat of
             None \<Rightarrow> (Inl (BackendError 51091), s1)
           | Some m \<Rightarrow>
               (Inr (map_option project
                       (List.find (\<lambda>d. mongo_regex m (dict_get d key)) (movies s1))), s1)))"

subsection \<open>Single-record operations and scan of the key-value store\<close>

fun ddb_upsert :: "string \<Rightarrow> pydict \<Rightarrow> pydict list \<Rightarrow> pydict list" where
  "ddb_upsert n w [] = [set_fields w [(''name'', PStr n)]]"
| "ddb_upsert n w (x # xs) =
     (if has_name n x then set_fields w x # xs else x # ddb_upsert n w xs)"

definition ddb_update_item ::
    "runtime \<Rightarrow> string \<Rightarrow> pydict \<Rightarrow> state \<Rightarrow> exn option \<times> state" where
  "ddb_update_item rt n ud s =
     (case ddb_item rt ud of
        Inl e \<Rightarrow> (Some e, s)
      | Inr w \<Rightarrow>
          (case request s of
             (Some e, s1) \<Rightarrow> (Some e, s1)
           | (None, s1) \<Rightarrow> (None, s1\<lparr>table := ddb_upsert n w (table s1)\<rparr>)))"

definition ddb_delete_item :: "string \<Rightarrow> state \<Rightarrow> exn option \<times> state" where
  "ddb_delete_item n s =
     (case request s of
        (Some e, s1) \<Rightarrow> (Some e, s1)
      | (None, s1) \<Rightarrow> (None, s1\<lparr>table := remove_first (has_name n) (table s1)\<rparr>))"

definition ddb_get_item :: "string \<Rightarrow> state \<Rightarrow> (exn + pydict option) \<times> state" where
  "ddb_get_item n s =
     (case request s of
        (Some e, s1) \<Rightarrow> (Inl e, s1)
      | (None, s1) \<Rightarrow> (Inr (List.find (has_name n) (table s1)), s1))"

text \<open>
  \<^verbatim>\<open>update_item\<close> creates the item when the key is new; \<^verbatim>\<open>delete_item\<close> of a key that
  is not there is served without an error; \<^verbatim>\<open>get_item\<close> answers without an \<^verbatim>\<open>Item\<close>
  entry when the key is not there.
\<close>

definition ddb_contains :: "string \<Rightarrow> pyval option \<Rightarrow> bool" where
  "ddb_contains x fv =
     (case fv of Some (PStr s) \<Rightarrow> contains_str x s
               | Some (PList vs) \<Rightarrow> List.member vs (PStr x)
               | _ \<Rightarrow> False)"

text \<open>
  The filter \<^verbatim>\<open>contains(k, :val)\<close> holds when attribute \<open>k\<close> is a string with the
  substring \<open>val\<close>, or a list with the element \<open>val\<close>; it compares bytes, so case
  matters.
\<close>

definition ddb_scan ::
    "string \<Rightarrow> string \<Rightarrow> pydict list \<Rightarrow> state \<Rightarrow> (exn + pydict list \<times> pydict list) \<times> state" where
  "ddb_scan key x rest s =
     (case request s of
        (Some e, s1) \<Rightarrow> (Inl e, s1)
      | (None, s1) \<Rightarrow>
          (Inr (filter (\<lambda>d. ddb_contains x (dict_get d key)) (take (Suc (page s1)) rest),
                drop (Suc (page s1)) rest), s1))"

text \<open>
  One scan request examines the next \<open>Suc (page s)\<close> items after the start key and
  returns those that pass the filter; the items still to be examined stand for
  \<^verbatim>\<open>LastEvaluatedKey\<close>, which is absent when none is left.
\<close>

function scan_all ::
    "string \<Rightarrow> string \<Rightarrow> pydict list \<Rightarrow> pydict list \<Rightarrow> state \<Rightarrow> exn option \<times> pydict list \<times> state" where
  "scan_all key x rest results s =
     (case ddb_scan key x rest s of
        (Inl e, s1) \<Rightarrow> (Some e, results, s1)
      | (Inr (items, rest1), s1) \<Rightarrow>
          if rest1 = [] then (None, results @ items, s1)
          else scan_all key x rest1 (results @ items) s1)"
  by pat_completeness auto
termination
  by (relation "measure (\<lambda>(key, x, rest, results, s). length rest)")
     (auto simp: ddb_scan_def split: prod.splits option.splits)

declare scan_all.simps [simp del]

fun float_keys :: "runtime \<Rightarrow> pydict list \<Rightarrow> exn + rat list" where
  "float_keys rt [] = Inr []"
| "float_keys rt (d # ds) =
     (case subscript d ''rating'' of Inl e \<Rightarrow> Inl e | Inr v \<Rightarrow>
      case py_float rt v of Inl e \<Rightarrow> Inl e | Inr x \<Rightarrow>
      case float_keys rt ds of Inl e \<Rightarrow> Inl e | Inr xs \<Rightarrow> Inr (x # xs))"

definition sorted_top20 :: "runtime \<Rightarrow> pydict list \<Rightarrow> exn + pydict list" where
  "sorted_top20 rt items =
     (case float_keys rt items of
        Inl e \<Rightarrow> Inl e
      | Inr ks \<Rightarrow> Inr (take 20 (map snd (sort_desc fst (zip ks items)))))"

text \<open>
  \<^verbatim>\<open>sorted(items, key=lambda x: float(x['rating']), reverse=True)[:20]\<close>: the keys are
  computed first, item by item, and the first failure is raised; the sort is stable.
\<close>

subsection \<open>The facade \<^verbatim>\<open>MovieEncyclopedia\<close>\<close>

definition add_movie :: "runtime \<Rightarrow> pydict \<Rightarrow> state \<Rightarrow> exn option \<times> pydict \<times> state" where
  "add_movie rt movie_data s =
     (if db_choice s = ''mongodb'' then
        (case dict_get movie_data ''rating'' of
           None \<Rightarrow> mongo_insert_one movie_data s
         | Some v \<Rightarrow>
             (case py_float rt v of
                Inl e \<Rightarrow> (Some e, movie_data, s)
              | Inr x \<Rightarrow> mongo_insert_one (dict_set movie_data ''rating'' (PFloat x)) s))
      else if db_choice s = ''dynamodb'' then
        (let md = (case dict_get movie_data ''rating'' of
                     Some (PDecimal d) \<Rightarrow> dict_set movie_data ''rating'' (PDecimal d)
                   | _ \<Rightarrow> movie_data)
         in case ddb_put_item rt md s of (r, s1) \<Rightarrow> (r, md, s1))
      else (None, movie_data, s))"

definition add_movie2 :: "runtime \<Rightarrow> pydict \<Rightarrow> state \<Rightarrow> exn option \<times> pydict \<times> state" where
  "add_movie2 rt movie_data s =
     (if db_choice s = ''mongodb'' then
        (case subscript movie_data ''rating'' of
           Inl e \<Rightarrow> (Some e, movie_data, s)
         | Inr v \<Rightarrow>
             (case py_float rt v of
                Inl e \<Rightarrow> (Some e, movie_data, s)
              | Inr x \<Rightarrow> mongo_insert_one (dict_set movie_data ''rating'' (PFloat x)) s))
      else if db_choice s = ''dynamodb'' then
        (case ddb_put_item rt movie_data s of (r, s1) \<Rightarrow> (r, movie_data, s1))
      else (None, movie_data, s))"

text \<open>
  \<open>add_movie\<close> is the method of \<^verbatim>\<open>movieproject.py\<close>, \<open>add_movie2\<close> the one of
  \<^verbatim>\<open>movies2.py\<close>. The second component of the result is the caller's dictionary as the
  call leaves it. \<^verbatim>\<open>Decimal(str(d))\<close> of a Decimal \<open>d\<close> is \<open>d\<close>.
\<close>

fun decimals_to_float :: "runtime \<Rightarrow> pydict \<Rightarrow> pydict \<Rightarrow> pydict" where
  "decimals_to_float rt [] d = d"
| "decimals_to_float rt ((k, v) # kvs) d =
     decimals_to_float rt kvs
       (case v of PDecimal q \<Rightarrow> dict_set d k (PFloat (float_of_decimal rt q)) | _ \<Rightarrow> d)"

fun floats_to_Decimal :: "runtime \<Rightarrow> pydict \<Rightarrow> pydict \<Rightarrow> pydict" where
  "floats_to_Decimal rt [] d = d"
| "floats_to_Decimal rt ((k, v) # kvs) d =
     floats_to_Decimal rt kvs
       (case v of PFloat x \<Rightarrow> dict_set d k (PDecimal (decimal_of_repr rt x)) | _ \<Rightarrow> d)"

text \<open>
  The two loops \<^verbatim>\<open>for key, value in update_data.items(): update_data[key] = ...\<close>: the
  first argument is the sequence of items being walked, the second the dictionary being
  written.
\<close>

definition update_movie ::
    "runtime \<Rightarrow> string \<Rightarrow> pydict \<Rightarrow> state \<Rightarrow> exn option \<times> pydict \<times> state" where
  "update_movie rt movie_name update_data s =
     (let ud = (if db_choice s = ''mongodb''
                then decimals_to_float rt update_data update_data else update_data)
      in if db_choice s = ''mongodb'' then
           (case mongo_update_one movie_name ud s of (r, s1) \<Rightarrow> (r, ud, s1))
         else if db_choice s = ''dynamodb'' then
           (let ud1 = floats_to_Decimal rt ud ud
            in case ddb_update_item rt movie_name ud1 s of (r, s1) \<Rightarrow> (r, ud1, s1))
         else (None, ud, s))"

definition delete_movie :: "runtime \<Rightarrow> string \<Rightarrow> state \<Rightarrow> exn option \<times> state" where
  "delete_movie rt movie_name s =
     (if db_choice s = ''mongodb'' then
        (case mongo_delete_one movie_name s of
           (Inl e, s1) \<Rightarrow> (Some e, s1)
         | (Inr deleted_count, s1) \<Rightarrow>
             if deleted_count = 0 then (None, print ''No movie found with that name.'' s1)
             else (None, s1))
      else if db_choice s = ''dynamodb'' then
        (case ddb_delete_item movie_name s of
           (Some e, s1) \<Rightarrow> (None, print (''Failed to delete movie: '' @ str_of_exn rt e) s1)
         | (None, s1) \<Rightarrow> (None, s1))
      else (None, s))"

definition delete_movie2 :: "runtime \<Rightarrow> string \<Rightarrow> state \<Rightarrow> exn option \<times> state" where
  "delete_movie2 rt movie_name s =
     (if db_choice s = ''mongodb'' then
        (case mongo_delete_one movie_name s of
           (Inl e, s1) \<Rightarrow> (Some e, s1)
         | (Inr deleted_count, s1) \<Rightarrow>
             if deleted_count = 0 then (None, print ''No movie found with that name.'' s1)
             else (None, print (''Deleted movie: '' @ movie_name) s1))
      else if db_choice s = ''dynamodb'' then
        (case ddb_delete_item movie_name s of
           (Some e, s1) \<Rightarrow> (None, print (''Failed to delete movie: '' @ str_of_exn rt e) s1)
         | (None, s1) \<Rightarrow> (None, print (''Deleted movie: '' @ movie_name) s1))
      else (None, s))"

definition find_movies ::
    "runtime \<Rightarrow> string \<Rightarrow> string \<Rightarrow> state \<Rightarrow> (exn + pydict list) \<times> state" where
  "find_movies rt key val s =
     (if db_choice s = ''mongodb'' then mongo_find_regex rt key val s
      else if db_choice s = ''dynamodb'' then
        (case scan_all key val (table s) [] s of
           (Some e, results, s1) \<Rightarrow>
             (Inr results, print (''Error scanning DynamoDB: '' @ str_of_exn rt e) s1)
         | (None, results, s1) \<Rightarrow>
             (case sorted_top20 rt results of
                Inl e \<Rightarrow> (Inr results, print (''Error scanning DynamoDB: '' @ str_of_exn rt e) s1)
              | Inr best \<Rightarrow> (Inr best, s1)))
      else (Inr [], s))"

definition find_movies2 ::
    "runtime \<Rightarrow> string \<Rightarrow> string \<Rightarrow> state \<Rightarrow> (exn + pydict list) \<times> state" where
  "find_movies2 rt key val s =
     (if db_choice s = ''mongodb'' then mongo_find_eq key val s
      else if db_choice s = ''dynamodb'' then
        (case ddb_scan key val (table s) s of
           (Inl e, s1) \<Rightarrow> (Inl e, s1)
         | (Inr (items, rest), s1) \<Rightarrow>
             (case sorted_top20 rt items of Inl e \<Rightarrow> (Inl e, s1) | Inr best \<Rightarrow> (Inr best, s1)))
      else (Inr [], s))"

text \<open>
  \<open>find_movies\<close> is the method of \<^verbatim>\<open>movieproject.py\<close>: in its \<^verbatim>\<open>try\<close> block the
  variable \<^verbatim>\<open>results\<close> is first the accumulator of the scan and only at the end the
  sorted, truncated list, and the handler returns whatever it holds. \<open>find_movies2\<close> is
  the method of \<^verbatim>\<open>movies2.py\<close>: an exact-match filter on the document store, and a
  single scan request with no handler on the key-value store.
\<close>

definition get_movie_details ::
    "runtime \<Rightarrow> string \<Rightarrow> state \<Rightarrow> (exn + pydict option) \<times> state" where
  "get_movie_details rt movie_name s =
     (if db_choice s = ''mongodb'' then mongo_find_one_regex rt ''name'' movie_name s
      else if db_choice s = ''dynamodb'' then ddb_get_item movie_name s
      else (Inr None, s))"

subsection \<open>The form \<^verbatim>\<open>MovieEncyclopediaGUI.add_movie\<close>\<close>

record form =
  movie_name_entry :: string
  genre_entry :: string
  director_entry :: string
  certificate_entry :: string
  rating_entry :: string
  dialogs :: "(string \<times> string) list"
  text_lines :: "string list"

definition showerror :: "string \<Rightarrow> string \<Rightarrow> form \<Rightarrow> form" where
  "showerror title message g = g\<lparr>dialogs := dialogs g @ [(title, message)]\<rparr>"

definition py_Decimal :: "runtime \<Rightarrow> string \<Rightarrow> exn + rat" where
  "py_Decimal rt s = (case decimal_of_str rt s of None \<Rightarrow> Inl InvalidOperation | Some d \<Rightarrow> Inr d)"

definition gui_add_movie :: "runtime \<Rightarrow> form \<Rightarrow> state \<Rightarrow> exn option \<times> form \<times> state" where
  "gui_add_movie rt g s =
     (let name = movie_name_entry g;
          genres = split_on CHR '','' (genre_entry g);
          directors = split_on CHR '','' (director_entry g);
          certificate = certificate_entry g;
          rating_str = rating_entry g
      in if name = [] \<or> rating_str = [] then
           (None, showerror ''Error'' ''Movie name and rating are required.'' g, s)
         else
           (case py_Decimal rt rating_str of
              Inl e \<Rightarrow>
                if e = ValueError then
                  (None, showerror ''Error'' ''Invalid rating. Please enter a numeric value.'' g, s)
                else (Some e, g, s)
            | Inr rating \<Rightarrow>
                (let genres1 = map strip (filter (\<lambda>genre. strip genre \<noteq> []) genres)
                 in if genres1 = [] then
                      (None, showerror ''Error'' ''At least one genre is required.'' g, s)
                    else
                      (case add_movie rt
                              [(''name'', PStr name), (''genre'', PList (map PStr genres1)),
                               (''directors'', PList (map PStr directors)),
                               (''certificate'', PStr certificate), (''rating'', PDecimal rating)] s of
                         (Some e, md, s1) \<Rightarrow> (Some e, g, s1)
                       | (None, md, s1) \<Rightarrow>
                           (None, g\<lparr>text_lines := text_lines g @ [''Added movie: '' @ name]\<rparr>, s1)))))"

definition gui_add_movie2 :: "runtime \<Rightarrow> form \<Rightarrow> state \<Rightarrow> exn option \<times> form \<times> state" where
  "gui_add_movie2 rt g s =
     (let name = movie_name_entry g;
          genres = split_on CHR '','' (genre_entry g);
          rating_str = rating_entry g
      in if name = [] \<or> rating_str = [] then
           (None, showerror ''Error'' ''Movie name and rating are required.'' g, s)
         else
           (case py_Decimal rt rating_str of
              Inl e \<Rightarrow>
                if e = ValueError then
                  (None, showerror ''Error'' ''Invalid rating. Please enter a numeric value.'' g, s)
                else (Some e, g, s)
            | Inr rating \<Rightarrow>
                (let genres1 = map strip (filter (\<lambda>genre. strip genre \<noteq> []) genres)
                 in if genres1 = [] then
                      (None, showerror ''Error'' ''At least one genre is required.'' g, s)
                    else
                      (case add_movie2 rt
                              [(''name'', PStr name), (''genre'', PList (map PStr genres1)),
                               (''rating'', PDecimal rating)] s of
                         (Some e, md, s1) \<Rightarrow> (Some e, g, s1)
                       | (None, md, s1) \<Rightarrow>
                           (None, g\<lparr>text_lines := text_lines g @ [''Added movie: '' @ name]\<rparr>, s1)))))"

text \<open>
  \<open>gui_add_movie\<close> is the handler of \<^verbatim>\<open>movieproject.py\<close>, \<open>gui_add_movie2\<close> the one of
  \<^verbatim>\<open>movies2.py\<close>, whose form has no entries for directors and certificate.
  \<^verbatim>\<open>Decimal(rating_str)\<close> raises \<^verbatim>\<open>decimal.InvalidOperation\<close> on a string that is no
  numeral; the handler around it is \<^verbatim>\<open>except ValueError\<close>.
\<close>

subsection \<open>A runtime and stores for the examples\<close>

definition metachars :: "char list" where
  "metachars = ''.^$*+?()[]{}|'' @ [CHR 0x5C]"

definition literal_regex_i :: "string \<Rightarrow> (string \<Rightarrow> bool) option" where
  "literal_regex_i p = (if list_ex (\<lambda>c. List.member metachars c) p then None else Some (contains_ci p))"

fun digit_of :: "char \<Rightarrow> nat option" where
  "digit_of c =
     (let n = (of_char c :: nat) in if 48 \<le> n \<and> n \<le> 57 then Some (n - 48) else None)"

fun digits_of :: "string \<Rightarrow> nat \<Rightarrow> nat option" where
  "digits_of [] acc = Some acc"
| "digits_of (c # cs) acc =
     (case digit_of c of None \<Rightarrow> None | Some k \<Rightarrow> digits_of cs (10 * acc + k))"

definition plain_numeral :: "string \<Rightarrow> rat option" where
  "plain_numeral s =
     (case split_on CHR ''.'' s of
        [a] \<Rightarrow> (if a = [] then None else map_option of_nat (digits_of a 0))
      | [a, b] \<Rightarrow>
          (if a = [] \<and> b = [] then None
           else (case digits_of (a @ b) 0 of
                   None \<Rightarrow> None
                 | Some n \<Rightarrow> Some (of_nat n / of_nat (10 ^ length b))))
      | _ \<Rightarrow> None)"

definition rt0 :: runtime where
  "rt0 = \<lparr>float_of_decimal = (\<lambda>d. d), decimal_of_repr = (\<lambda>x. x),
          float_of_str = plain_numeral, decimal_of_str = plain_numeral,
          str_of = (\<lambda>v. case v of PStr s \<Rightarrow> s | _ \<Rightarrow> ''?''),
          str_of_exn = (\<lambda>e. case e of KeyError k \<Rightarrow> [CHR 0x27] @ k @ [CHR 0x27] | _ \<Rightarrow> ''error''),
          regex_i = literal_regex_i,
          ddb_number_ok = (\<lambda>d. \<bar>d\<bar> < 10 ^ 30 \<and> of_int \<lfloor>d * 1000000\<rfloor> = d * 1000000)\<rparr>"

text \<open>
  \<open>rt0\<close> is a runtime for closed examples. It is what Python and the document store
  compute on the inputs the examples use: a pattern without metacharacters is searched
  as a substring, ignoring case; unsigned numerals in plain notation are parsed, and a
  string with a letter is no numeral; integers and halves are binary floats, so both
  conversions leave them as they are; the text of a \<^verbatim>\<open>KeyError\<close> is its key in quotes; a
  number below \<open>10 ^ 30\<close> with at most six decimal places has fewer than 38 digits and
  is taken by the number context, and the exact value of the float 8.1 is not.
\<close>

definition store0 :: "string \<Rightarrow> state" where
  "store0 c = \<lparr>db_choice = c, movies = [], next_oid = 0, table = [], page = 99,
               faults = [], stdout = []\<rparr>"

definition frame0 :: dataframe where
  "frame0 = \<lparr>columns = [''name'', ''year'', ''rating'', ''certificate'', ''genre'', ''casts'', ''directors''],
             rows = [[(''name'', PStr ''Dune''), (''year'', PInt 2021), (''rating'', PFloat 8),
                      (''certificate'', PStr ''PG-13''), (''genre'', PStr ''Action,Drama''),
                      (''casts'', PStr ''A,B''), (''directors'', PStr ''D'')]]\<rparr>"

definition kv_store :: "pydict list \<Rightarrow> state" where
  "kv_store items = (store0 ''dynamodb'')\<lparr>table := items\<rparr>"

definition doc_store :: "pydict list \<Rightarrow> state" where
  "doc_store docs = (store0 ''mongodb'')\<lparr>movies := docs, next_oid := length docs\<rparr>"

definition movie_a :: pydict where
  "movie_a = [(''name'', PStr ''Alien''), (''certificate'', PStr ''PG-13''), (''rating'', PDecimal 5)]"

definition movie_b :: pydict where
  "movie_b = [(''name'', PStr ''Brazil''), (''certificate'', PStr ''PG-13''), (''rating'', PDecimal 9)]"

definition movie_x :: pydict where
  "movie_x = [(''name'', PStr ''Xanadu''), (''certificate'', PStr ''PG-13'')]"

definition doc_dune2 :: pydict where
  "doc_dune2 = [(''name'', PStr ''Dune: Part Two''), (''year'', PInt 2024), (''rating'', PFloat 7),
                (''_id'', PObjectId 0)]"

definition doc_dune :: pydict where
  "doc_dune = [(''name'', PStr ''Dune''), (''year'', PInt 2021), (''rating'', PFloat 8),
               (''_id'', PObjectId 1)]"

definition form_abc :: form where
  "form_abc = \<lparr>movie_name_entry = ''Dune'', genre_entry = ''Sci-Fi'',
                director_entry = ''Denis Villeneuve'', certificate_entry = ''PG-13'',
                rating_entry = ''abc'', dialogs = [], text_lines = []\<rparr>"

subsection \<open>Notions used in the statements\<close>

definition as_float :: "runtime \<Rightarrow> pyval \<Rightarrow> pyval" where
  "as_float rt v = (case v of PDecimal q \<Rightarrow> PFloat (float_of_decimal rt q) | _ \<Rightarrow> v)"

definition as_Decimal :: "runtime \<Rightarrow> pyval \<Rightarrow> pyval" where
  "as_Decimal rt v = (case v of PFloat x \<Rightarrow> PDecimal (decimal_of_repr rt x) | _ \<Rightarrow> v)"

text \<open>
  \<open>as_float rt v\<close> is \<open>v\<close> with a Decimal replaced by its float, \<open>as_Decimal rt v\<close> is
  \<open>v\<close> with a float replaced by its Decimal.
\<close>

definition selects :: "'a list \<Rightarrow> ('a \<Rightarrow> bool) \<Rightarrow> 'a list \<Rightarrow> bool" where
  "selects rs p xs =
     (set rs \<subseteq> set (filter p xs) \<and> (length (filter p xs) \<le> 20 \<longrightarrow> set rs = set (filter p xs)))"

text \<open>
  \<open>selects rs p xs\<close>: every element of \<open>rs\<close> is an element of \<open>xs\<close> that passes the
  filter \<open>p\<close>, and when at most 20 elements of \<open>xs\<close> pass, \<open>rs\<close> has all of them.
\<close>

definition float_rating :: "runtime \<Rightarrow> pydict \<Rightarrow> exn + rat" where
  "float_rating rt d =
     (case subscript d ''rating'' of Inl e \<Rightarrow> Inl e | Inr v \<Rightarrow> py_float rt v)"

text \<open>\<open>float_rating rt d\<close> is the sort key \<^verbatim>\<open>float(x['rating'])\<close> of a record.\<close>

section \<open>Properties\<close>

lemma request_db_choice: "db_choice (snd (request s)) = db_choice s"
  by (simp add: request_def split: list.splits)

lemma request_table: "table (snd (request s)) = table s"
  by (simp add: request_def split: list.splits)

lemma mongo_drop_frame:
  "db_choice (snd (mongo_drop s)) = db_choice s \<and> table (snd (mongo_drop s)) = table s"
  using request_db_choice [of s] request_table [of s]
  by (auto simp: mongo_drop_def split: prod.splits option.splits)

lemma mongo_insert_many_frame:
  "db_choice (snd (mongo_insert_many ds s)) = db_choice s
   \<and> table (snd (mongo_insert_many ds s)) = table s"
proof -
  let ?s1 = "s\<lparr>next_oid := next_oid s + length ds\<rparr>"
  have "db_choice (snd (request ?s1)) = db_choice s" "table (snd (request ?s1)) = table s"
    using request_db_choice [of ?s1] request_table [of ?s1] by simp_all
  then show ?thesis
    by (auto simp: mongo_insert_many_def Let_def split: prod.splits option.splits list.splits)
qed

text \<open>
  C3. In \<open>load_movies_from_csv\<close> the branch that writes to the key-value table is nested
  inside the branch for \<open>db_choice = mongodb\<close>, so it would need \<open>db_choice\<close> to be
  both values at once: whatever \<open>db_choice\<close> is, the table is left as it was, and with
  \<open>db_choice = dynamodb\<close> the whole state (both stores, the pending requests, the
  output) is left as it was, whether the call returns or raises.
\<close>

theorem bulk_load_never_writes_table:
  "table (snd (load_movies_from_csv rt df s)) = table s
   \<and> (db_choice s = ''dynamodb'' \<longrightarrow> snd (load_movies_from_csv rt df s) = s)"
proof -
  have frame: "table (snd (load_movies_from_csv rt df s)) = table s"
  proof (cases "db_choice s = ''mongodb''")
    case False
    then show ?thesis
      by (simp add: load_movies_from_csv_def split: sum.splits)
  next
    case True
    have nested: "db_choice s2 = ''mongodb'' \<Longrightarrow> db_choice s2 \<noteq> ''dynamodb''" for s2 :: state
      by simp
    show ?thesis
    proof (cases "mongo_drop s")
      case (Pair r1 s1)
      with mongo_drop_frame [of s] have s1: "db_choice s1 = db_choice s" "table s1 = table s"
        by simp_all
      show ?thesis
      proof (cases "mongo_insert_many (rows (projr (apply_split ''genre''
              (projr (apply_split ''directors'' (projr (apply_split ''casts'' df))))))) s1")
        case (Pair r2 s2)
        with mongo_insert_many_frame [of _ s1] s1
        have s2: "db_choice s2 = db_choice s" "table s2 = table s"
          by (metis snd_conv)+
        with True have "db_choice s2 \<noteq> ''dynamodb''" by simp
        with True s1 s2 \<open>mongo_drop s = (r1, s1)\<close> Pair show ?thesis
          by (auto simp: load_movies_from_csv_def split: sum.splits option.splits)
      qed
    qed
  qed
  have "db_choice s = ''dynamodb'' \<Longrightarrow> snd (load_movies_from_csv rt df s) = s"
    by (simp add: load_movies_from_csv_def split: sum.splits)
  with frame show ?thesis by simp
qed

theorem bulk_load_never_writes_table_witness:
  "db_choice (kv_store [movie_a]) = ''dynamodb''
   \<and> snd (load_movies_from_csv rt0 frame0 (kv_store [movie_a])) = kv_store [movie_a]
   \<and> table (snd (load_movies_from_csv rt0 frame0 (kv_store [movie_a]))) = [movie_a]"
  using bulk_load_never_writes_table [of rt0 frame0 "kv_store [movie_a]"]
  by (simp add: kv_store_def store0_def)

text \<open>
  C1. \<open>find_movies\<close> is to return at most 20 records, sorted by rating, highest first.
  On the key-value store of \<^verbatim>\<open>movieproject.py\<close> the handler of the \<^verbatim>\<open>try\<close> block returns
  the accumulator of the scan instead. Here the table holds three records that pass the
  filter, the third without a rating (as \<open>update_movie\<close> creates it for a new name): the
  sort key raises \<^verbatim>\<open>KeyError\<close>, the handler prints it, and the three records come back in
  scan order, rating 5 before rating 9.
\<close>

theorem find_movies_handler_returns_accumulator:
  "find_movies rt0 ''certificate'' ''PG'' (kv_store [movie_a, movie_b, movie_x])
     = (Inr [movie_a, movie_b, movie_x],
        print (''Error scanning DynamoDB: '' @ [CHR 0x27] @ ''rating'' @ [CHR 0x27])
          (kv_store [movie_a, movie_b, movie_x]))
   \<and> subscript movie_a ''rating'' = Inr (PDecimal 5)
   \<and> subscript movie_b ''rating'' = Inr (PDecimal 9)
   \<and> update_movie rt0 ''Xanadu'' [(''certificate'', PStr ''PG-13'')] (kv_store [movie_a, movie_b])
     = (None, [(''certificate'', PStr ''PG-13'')], kv_store [movie_a, movie_b, movie_x])"
  by code_simp

text \<open>
  C4. \<open>add_movie\<close> is to convert the rating to a Decimal before it writes to the
  key-value store, whatever numeric type the caller passed. With a float rating neither
  version converts it: \<^verbatim>\<open>movieproject.py\<close> tests \<^verbatim>\<open>isinstance(..., Decimal)\<close> where
  \<open>update_movie\<close> tests \<^verbatim>\<open>isinstance(value, float)\<close>, and \<^verbatim>\<open>movies2.py\<close> has no
  conversion. The float reaches \<^verbatim>\<open>put_item\<close>, whose serializer raises \<^verbatim>\<open>TypeError\<close>; the
  dictionary and the table are left as they were.
\<close>

theorem add_movie_float_reaches_table:
  "add_movie rt [(''name'', PStr ''Dune''), (''rating'', PFloat (17 / 2))] (store0 ''dynamodb'')
     = (Some TypeError, [(''name'', PStr ''Dune''), (''rating'', PFloat (17 / 2))], store0 ''dynamodb'')
   \<and> add_movie2 rt [(''name'', PStr ''Dune''), (''rating'', PFloat (17 / 2))] (store0 ''dynamodb'')
     = (Some TypeError, [(''name'', PStr ''Dune''), (''rating'', PFloat (17 / 2))], store0 ''dynamodb'')"
  by (simp add: add_movie_def add_movie2_def store0_def dict_get_def ddb_put_item_def)

text \<open>
  C9. A form with a name and the rating \<^verbatim>\<open>abc\<close> is to be rejected with an error dialog.
  \<^verbatim>\<open>Decimal('abc')\<close> raises \<^verbatim>\<open>InvalidOperation\<close>, which the handler
  \<^verbatim>\<open>except ValueError\<close> does not catch: the exception leaves the handler (of either
  file), no dialog is shown, and nothing is written, on either store.
\<close>

theorem gui_add_movie_invalid_rating_escapes:
  "gui_add_movie rt0 form_abc (store0 ''mongodb'')
     = (Some InvalidOperation, form_abc, store0 ''mongodb'')
   \<and> gui_add_movie rt0 form_abc (store0 ''dynamodb'')
     = (Some InvalidOperation, form_abc, store0 ''dynamodb'')
   \<and> gui_add_movie2 rt0 form_abc (store0 ''mongodb'')
     = (Some InvalidOperation, form_abc, store0 ''mongodb'')
   \<and> gui_add_movie2 rt0 form_abc (store0 ''dynamodb'')
     = (Some InvalidOperation, form_abc, store0 ''dynamodb'')
   \<and> dialogs form_abc = []"
  by code_simp

lemma gui_add_movie_invalid_rating:
  "movie_name_entry g \<noteq> [] \<Longrightarrow> rating_entry g \<noteq> [] \<Longrightarrow>
   decimal_of_str rt (rating_entry g) = None \<Longrightarrow>
   gui_add_movie rt g s = (Some InvalidOperation, g, s)
   \<and> gui_add_movie2 rt g s = (Some InvalidOperation, g, s)"
  by (simp add: gui_add_movie_def gui_add_movie2_def py_Decimal_def Let_def)

lemma request_served: "faults s = [] \<Longrightarrow> request s = (None, s)"
  by (simp add: request_def)

lemma request_answer: "faults s = f # fs \<Longrightarrow> request s = (f, s\<lparr>faults := fs\<rparr>)"
  by (simp add: request_def)

lemma dict_get_set: "dict_get (dict_set d k v) k' = (if k' = k then Some v else dict_get d k')"
  by (simp add: dict_get_def dict_set_def update_conv')

lemma dict_get_del: "dict_get (dict_del d k) k' = (if k' = k then None else dict_get d k')"
  by (simp add: dict_get_def dict_del_def delete_conv')

lemma dict_get_with_id: "k \<noteq> ''_id'' \<Longrightarrow> dict_get (with_id d n) k = dict_get d k"
  by (auto simp: with_id_def dict_get_def map_add_def split: option.splits)

lemma dict_get_decimals_to_float:
  "distinct (map fst kvs) \<Longrightarrow>
   dict_get (decimals_to_float rt kvs d) k =
     (case map_of kvs k of Some (PDecimal q) \<Rightarrow> Some (PFloat (float_of_decimal rt q))
      | _ \<Rightarrow> dict_get d k)"
proof (induction kvs arbitrary: d)
  case Nil
  then show ?case by simp
next
  case (Cons kv kvs)
  obtain a v where kv: "kv = (a, v)" by (cases kv)
  from Cons.prems kv have fresh: "map_of kvs a = None" and dist: "distinct (map fst kvs)"
    by (auto simp: map_of_eq_None_iff)
  show ?case
  proof (cases "k = a")
    case True
    with kv fresh Cons.IH [OF dist] show ?thesis
      by (cases v) (simp_all add: dict_get_set)
  next
    case False
    with kv Cons.IH [OF dist] show ?thesis
      by (cases v) (simp_all add: dict_get_set split: option.splits pyval.splits)
  qed
qed

lemma dict_get_floats_to_Decimal:
  "distinct (map fst kvs) \<Longrightarrow>
   dict_get (floats_to_Decimal rt kvs d) k =
     (case map_of kvs k of Some (PFloat x) \<Rightarrow> Some (PDecimal (decimal_of_repr rt x))
      | _ \<Rightarrow> dict_get d k)"
proof (induction kvs arbitrary: d)
  case Nil
  then show ?case by simp
next
  case (Cons kv kvs)
  obtain a v where kv: "kv = (a, v)" by (cases kv)
  from Cons.prems kv have fresh: "map_of kvs a = None" and dist: "distinct (map fst kvs)"
    by (auto simp: map_of_eq_None_iff)
  show ?case
  proof (cases "k = a")
    case True
    with kv fresh Cons.IH [OF dist] show ?thesis
      by (cases v) (simp_all add: dict_get_set)
  next
    case False
    with kv Cons.IH [OF dist] show ?thesis
      by (cases v) (simp_all add: dict_get_set split: option.splits pyval.splits)
  qed
qed

lemma update_movie_dict_mongo:
  "db_choice s = ''mongodb'' \<Longrightarrow>
   fst (snd (update_movie rt n ud s)) = decimals_to_float rt ud ud"
  by (simp add: update_movie_def Let_def split: prod.splits)

lemma update_movie_dict_dynamo:
  "db_choice s = ''dynamodb'' \<Longrightarrow>
   fst (snd (update_movie rt n ud s)) = floats_to_Decimal rt ud ud"
  by (simp add: update_movie_def Let_def split: prod.splits)

lemma mongo_insert_one_dict: "fst (snd (mongo_insert_one d s)) = with_id d (next_oid s)"
  by (simp add: mongo_insert_one_def Let_def split: prod.splits option.splits)

lemma add_movie_dict_mongo:
  "db_choice s = ''mongodb'' \<Longrightarrow> dict_get md ''rating'' = Some v \<Longrightarrow> py_float rt v = Inr x \<Longrightarrow>
   dict_get (fst (snd (add_movie rt md s))) ''rating'' = Some (PFloat x)
   \<and> dict_get (fst (snd (add_movie2 rt md s))) ''rating'' = Some (PFloat x)"
  by (simp add: add_movie_def add_movie2_def subscript_def mongo_insert_one_dict dict_get_with_id dict_get_set)

text \<open>
  C10. \<open>add_movie\<close> and \<open>update_movie\<close> write into the dictionary the caller passed.
  With the document store, \<open>add_movie\<close> (both versions) leaves the float of the rating
  under \<^verbatim>\<open>rating\<close>, and \<open>update_movie\<close> leaves under every key the value it had, a
  Decimal replaced by its float. With the key-value store, \<open>update_movie\<close> leaves under
  every key the value it had, a float replaced by its Decimal.
\<close>

theorem update_and_add_rewrite_callers_dict:
  "(db_choice s = ''mongodb'' \<and> dict_get md ''rating'' = Some v \<and> py_float rt v = Inr x \<longrightarrow>
      dict_get (fst (snd (add_movie rt md s))) ''rating'' = Some (PFloat x)
      \<and> dict_get (fst (snd (add_movie2 rt md s))) ''rating'' = Some (PFloat x))
   \<and> (db_choice s = ''mongodb'' \<and> distinct (map fst ud) \<longrightarrow>
      dict_get (fst (snd (update_movie rt n ud s))) k = map_option (as_float rt) (dict_get ud k))
   \<and> (db_choice s = ''dynamodb'' \<and> distinct (map fst ud) \<longrightarrow>
      dict_get (fst (snd (update_movie rt n ud s))) k = map_option (as_Decimal rt) (dict_get ud k))"
proof -
  have upd_mongo: "dict_get (fst (snd (update_movie rt n ud s))) k = map_option (as_float rt) (dict_get ud k)"
    if "db_choice s = ''mongodb''" "distinct (map fst ud)"
    using that
    by (simp add: update_movie_dict_mongo dict_get_decimals_to_float)
       (simp add: as_float_def dict_get_def split: option.splits pyval.splits)
  have upd_dynamo: "dict_get (fst (snd (update_movie rt n ud s))) k = map_option (as_Decimal rt) (dict_get ud k)"
    if "db_choice s = ''dynamodb''" "distinct (map fst ud)"
    using that
    by (simp add: update_movie_dict_dynamo dict_get_floats_to_Decimal)
       (simp add: as_Decimal_def dict_get_def split: option.splits pyval.splits)
  from add_movie_dict_mongo [of s md v rt x] upd_mongo upd_dynamo show ?thesis by blast
qed


lemma rt0_conversions:
  "float_of_decimal rt0 d = d" "decimal_of_repr rt0 x = x"
  by (simp_all add: rt0_def)

theorem update_and_add_rewrite_callers_dict_witness:
  "dict_get (fst (snd (add_movie rt0 [(''name'', PStr ''Dune''), (''rating'', PDecimal (17 / 2))]
       (doc_store [])))) ''rating'' = Some (PFloat (17 / 2))
   \<and> dict_get (fst (snd (add_movie2 rt0 [(''name'', PStr ''Dune''), (''rating'', PDecimal (17 / 2))]
       (doc_store [])))) ''rating'' = Some (PFloat (17 / 2))
   \<and> dict_get (fst (snd (update_movie rt0 ''Dune'' [(''rating'', PDecimal 9)] (doc_store []))))
       ''rating'' = Some (PFloat 9)
   \<and> dict_get (fst (snd (update_movie rt0 ''Dune'' [(''rating'', PFloat 9)] (kv_store []))))
       ''rating'' = Some (PDecimal 9)"
  using update_and_add_rewrite_callers_dict [where s = "doc_store []" and rt = rt0
      and md = "[(''name'', PStr ''Dune''), (''rating'', PDecimal (17 / 2))]"
      and v = "PDecimal (17 / 2)" and x = "17 / 2" and ud = "[(''rating'', PDecimal 9)]"
      and n = "''Dune''" and k = "''rating''"]
    update_and_add_rewrite_callers_dict [where s = "kv_store []" and rt = rt0
      and ud = "[(''rating'', PFloat 9)]" and n = "''Dune''" and k = "''rating''"]
  by (simp add: doc_store_def kv_store_def store0_def rt0_conversions dict_get_def as_float_def
      as_Decimal_def)

lemma remove_first_none: "\<not> list_ex p xs \<Longrightarrow> remove_first p xs = xs"
  by (induction xs) auto

lemma remove_first_cases:
  "remove_first p xs = xs
   \<or> (\<exists>i<length xs. p (xs ! i) \<and> remove_first p xs = take i xs @ drop (Suc i) xs)"
proof (induction xs)
  case Nil
  then show ?case by simp
next
  case (Cons x xs)
  show ?case
  proof (cases "p x")
    case True
    then have "p ((x # xs) ! 0) \<and> remove_first p (x # xs) = take 0 (x # xs) @ drop (Suc 0) (x # xs)"
      by simp
    then show ?thesis by blast
  next
    case False
    from Cons.IH show ?thesis
    proof
      assume "remove_first p xs = xs"
      with False show ?thesis by simp
    next
      assume "\<exists>i<length xs. p (xs ! i) \<and> remove_first p xs = take i xs @ drop (Suc i) xs"
      then obtain i where i: "i < length xs" "p (xs ! i)"
          "remove_first p xs = take i xs @ drop (Suc i) xs"
        by blast
      with False have "Suc i < length (x # xs) \<and> p ((x # xs) ! Suc i)
          \<and> remove_first p (x # xs) = take (Suc i) (x # xs) @ drop (Suc (Suc i)) (x # xs)"
        by simp
      then show ?thesis by blast
    qed
  qed
qed

lemma mongo_delete_one_served:
  "faults s = [] \<Longrightarrow>
   mongo_delete_one n s =
     (Inr (if list_ex (named n) (movies s) then 1 else 0),
      s\<lparr>movies := remove_first (named n) (movies s)\<rparr>)"
  by (simp add: mongo_delete_one_def request_served)

lemma mongo_delete_one_movies:
  "movies (snd (mongo_delete_one n s)) = movies s
   \<or> movies (snd (mongo_delete_one n s)) = remove_first (named n) (movies s)"
  by (auto simp: mongo_delete_one_def request_def split: list.splits option.splits)

lemma mongo_delete_one_table: "table (snd (mongo_delete_one n s)) = table s"
  by (auto simp: mongo_delete_one_def request_def split: list.splits option.splits)

lemma ddb_delete_item_table:
  "table (snd (ddb_delete_item n s)) = table s
   \<or> table (snd (ddb_delete_item n s)) = remove_first (has_name n) (table s)"
  by (auto simp: ddb_delete_item_def request_def split: list.splits option.splits)

lemma ddb_delete_item_movies: "movies (snd (ddb_delete_item n s)) = movies s"
  by (auto simp: ddb_delete_item_def request_def split: list.splits option.splits)

lemma delete_movie_mongo_movies:
  "db_choice s = ''mongodb'' \<Longrightarrow>
   movies (snd (delete_movie rt n s)) = movies (snd (mongo_delete_one n s))
   \<and> table (snd (delete_movie rt n s)) = table s"
  using mongo_delete_one_table [of n s]
  by (auto simp: delete_movie_def print_def split: prod.splits sum.splits)

lemma delete_movie_dynamo_stores:
  "db_choice s = ''dynamodb'' \<Longrightarrow>
   table (snd (delete_movie rt n s)) = table (snd (ddb_delete_item n s))
   \<and> movies (snd (delete_movie rt n s)) = movies s"
  using ddb_delete_item_movies [of n s]
  by (auto simp: delete_movie_def print_def split: prod.splits option.splits)

lemma delete_movie_dynamo_returns:
  "db_choice s = ''dynamodb'' \<Longrightarrow> fst (delete_movie rt n s) = None"
  by (auto simp: delete_movie_def split: prod.splits option.splits)

lemma delete_movie_dynamo_fault:
  "db_choice s = ''dynamodb'' \<Longrightarrow> faults s = Some e # fs \<Longrightarrow>
   delete_movie rt n s
     = (None, print (''Failed to delete movie: '' @ str_of_exn rt e) (s\<lparr>faults := fs\<rparr>))"
  by (simp add: delete_movie_def ddb_delete_item_def request_answer)

lemma delete_movie_mongo_no_match:
  "db_choice s = ''mongodb'' \<Longrightarrow> faults s = [] \<Longrightarrow> \<not> list_ex (named n) (movies s) \<Longrightarrow>
   delete_movie rt n s = (None, print ''No movie found with that name.'' s)"
  by (simp add: delete_movie_def mongo_delete_one_served remove_first_none)

lemma delete_movie2_same:
  "fst (delete_movie2 rt n s) = fst (delete_movie rt n s)
   \<and> movies (snd (delete_movie2 rt n s)) = movies (snd (delete_movie rt n s))
   \<and> table (snd (delete_movie2 rt n s)) = table (snd (delete_movie rt n s))"
  by (auto simp: delete_movie_def delete_movie2_def print_def split: prod.splits sum.splits option.splits)

text \<open>
  C7, as the code has it. \<open>delete_movie\<close> for a name that no record has leaves both
  stores as they were, so a second call finds what the first one found. On the document
  store, when the request is served, it prints that no movie was found and returns, and
  when the store answers with an exception the call raises it; in every case it removes at
  most one record, one that has the name. On the key-value store the request is sent
  without a lookup and the call always returns: an exception of the store is printed, not
  raised. \<^verbatim>\<open>movies2.py\<close> differs in what it prints only.
\<close>

theorem delete_movie_without_match:
  "(db_choice s = ''mongodb'' \<and> faults s = [] \<and> \<not> list_ex (named n) (movies s) \<longrightarrow>
      delete_movie rt n s = (None, print ''No movie found with that name.'' s))
   \<and> (db_choice s = ''mongodb'' \<and> faults s = Some e # fs \<longrightarrow>
      delete_movie rt n s = (Some e, s\<lparr>faults := fs\<rparr>))
   \<and> (db_choice s = ''mongodb'' \<longrightarrow>
      movies (snd (delete_movie rt n s)) = movies s
      \<or> (\<exists>i<length (movies s). named n (movies s ! i)
            \<and> movies (snd (delete_movie rt n s)) = take i (movies s) @ drop (Suc i) (movies s)))
   \<and> (db_choice s = ''dynamodb'' \<longrightarrow> fst (delete_movie rt n s) = None)
   \<and> (db_choice s = ''dynamodb'' \<and> faults s = Some e # fs \<longrightarrow>
      delete_movie rt n s
        = (None, print (''Failed to delete movie: '' @ str_of_exn rt e) (s\<lparr>faults := fs\<rparr>)))
   \<and> (db_choice s = ''mongodb'' \<and> \<not> list_ex (named n) (movies s)
        \<or> db_choice s = ''dynamodb'' \<and> \<not> list_ex (has_name n) (table s) \<longrightarrow>
      movies (snd (delete_movie rt n s)) = movies s \<and> table (snd (delete_movie rt n s)) = table s)
   \<and> fst (delete_movie2 rt n s) = fst (delete_movie rt n s)
   \<and> movies (snd (delete_movie2 rt n s)) = movies (snd (delete_movie rt n s))
   \<and> table (snd (delete_movie2 rt n s)) = table (snd (delete_movie rt n s))"
proof -
  have one: "movies (snd (delete_movie rt n s)) = movies s
      \<or> (\<exists>i<length (movies s). named n (movies s ! i)
            \<and> movies (snd (delete_movie rt n s)) = take i (movies s) @ drop (Suc i) (movies s))"
    if "db_choice s = ''mongodb''"
    using delete_movie_mongo_movies [OF that, of rt n] mongo_delete_one_movies [of n s]
      remove_first_cases [of "named n" "movies s"]
    by auto
  have unchanged: "movies (snd (delete_movie rt n s)) = movies s
      \<and> table (snd (delete_movie rt n s)) = table s"
    if "db_choice s = ''mongodb'' \<and> \<not> list_ex (named n) (movies s)
        \<or> db_choice s = ''dynamodb'' \<and> \<not> list_ex (has_name n) (table s)"
    using that
  proof
    assume a: "db_choice s = ''mongodb'' \<and> \<not> list_ex (named n) (movies s)"
    with delete_movie_mongo_movies [of s rt n] mongo_delete_one_movies [of n s]
      remove_first_none [of "named n" "movies s"]
    show ?thesis by auto
  next
    assume a: "db_choice s = ''dynamodb'' \<and> \<not> list_ex (has_name n) (table s)"
    with delete_movie_dynamo_stores [of s rt n] ddb_delete_item_table [of n s]
      remove_first_none [of "has_name n" "table s"]
    show ?thesis by auto
  qed
  have raised: "delete_movie rt n s = (Some e, s\<lparr>faults := fs\<rparr>)"
    if "db_choice s = ''mongodb''" "faults s = Some e # fs"
    using that by (simp add: delete_movie_def mongo_delete_one_def request_answer)
  from one unchanged raised delete_movie_mongo_no_match [of s n rt]
    delete_movie_dynamo_returns [of s rt n] delete_movie_dynamo_fault [of s e fs rt n]
    delete_movie2_same [of rt n s]
  show ?thesis by blast
qed

text \<open>
  C7 as stated fails on the document store: no record has the name \<^verbatim>\<open>Alien\<close>, the store
  answers the request with an exception, and \<open>delete_movie\<close> (of either file) raises it.
\<close>

theorem delete_movie_without_match_raises:
  "\<not> list_ex (named ''Alien'') (movies ((doc_store [doc_dune])\<lparr>faults := [Some (BackendError 7)]\<rparr>))
   \<and> delete_movie rt0 ''Alien'' ((doc_store [doc_dune])\<lparr>faults := [Some (BackendError 7)]\<rparr>)
     = (Some (BackendError 7), doc_store [doc_dune])
   \<and> delete_movie2 rt0 ''Alien'' ((doc_store [doc_dune])\<lparr>faults := [Some (BackendError 7)]\<rparr>)
     = (Some (BackendError 7), doc_store [doc_dune])"
  by code_simp


lemma find_movies_dynamo_returns:
  "db_choice s = ''dynamodb'' \<Longrightarrow> \<exists>rs. fst (find_movies rt key val s) = Inr rs"
  by (auto simp: find_movies_def split: prod.splits option.splits sum.splits)

lemma scan_all_first_fault:
  "faults s = Some e # fs \<Longrightarrow> scan_all key val rest results s = (Some e, results, s\<lparr>faults := fs\<rparr>)"
  by (subst scan_all.simps) (simp add: ddb_scan_def request_answer)

lemma find_movies_dynamo_fault:
  "db_choice s = ''dynamodb'' \<Longrightarrow> faults s = Some e # fs \<Longrightarrow>
   find_movies rt key val s
     = (Inr [], print (''Error scanning DynamoDB: '' @ str_of_exn rt e) (s\<lparr>faults := fs\<rparr>))"
  by (simp add: find_movies_def scan_all_first_fault)

lemma find_movies2_fault:
  "db_choice s = ''dynamodb'' \<or> db_choice s = ''mongodb'' \<Longrightarrow> faults s = Some e # fs \<Longrightarrow>
   fst (find_movies2 rt key val s) = Inl e"
  by (auto simp: find_movies2_def ddb_scan_def mongo_find_eq_def request_answer)

lemma find_movies_mongo_fault:
  "db_choice s = ''mongodb'' \<Longrightarrow> faults s = Some e # fs \<Longrightarrow>
   fst (find_movies rt key val s) = Inl e"
  by (simp add: find_movies_def mongo_find_regex_def request_answer)

lemma delete_movie_mongo_fault:
  "db_choice s = ''mongodb'' \<Longrightarrow> faults s = Some e # fs \<Longrightarrow>
   fst (delete_movie rt n s) = Some e \<and> fst (delete_movie2 rt n s) = Some e"
  by (simp add: delete_movie_def delete_movie2_def mongo_delete_one_def request_answer)

lemma mongo_insert_one_fault:
  "faults s = Some e # fs \<Longrightarrow> faults (snd (snd (mongo_insert_one d s))) = fs \<Longrightarrow>
   fst (mongo_insert_one d s) = Some e"
  by (auto simp: mongo_insert_one_def Let_def request_answer split: if_splits option.splits)

lemma ddb_put_item_fault:
  "faults s = Some e # fs \<Longrightarrow> faults (snd (ddb_put_item rt d s)) = fs \<Longrightarrow>
   fst (ddb_put_item rt d s) = Some e"
  by (auto simp: ddb_put_item_def request_answer split: sum.splits)

lemma add_movie_fault:
  "faults s = Some e # fs \<Longrightarrow> faults (snd (snd (add_movie rt md s))) = fs \<Longrightarrow>
   fst (add_movie rt md s) = Some e"
  by (auto simp: add_movie_def mongo_insert_one_def ddb_put_item_def Let_def request_answer
      split: if_splits option.splits sum.splits pyval.splits)

lemma add_movie2_fault:
  "faults s = Some e # fs \<Longrightarrow> faults (snd (snd (add_movie2 rt md s))) = fs \<Longrightarrow>
   fst (add_movie2 rt md s) = Some e"
  by (auto simp: add_movie2_def mongo_insert_one_def ddb_put_item_def Let_def request_answer
      split: if_splits option.splits sum.splits)

lemma update_movie_fault:
  "faults s = Some e # fs \<Longrightarrow> faults (snd (snd (update_movie rt n ud s))) = fs \<Longrightarrow>
   fst (update_movie rt n ud s) = Some e"
  by (auto simp: update_movie_def Let_def mongo_update_one_def ddb_update_item_def request_answer
      split: if_splits option.splits prod.splits sum.splits)

text \<open>
  C6, as the code has it. On the key-value store \<open>delete_movie\<close> (both versions) and
  \<open>find_movies\<close> of \<^verbatim>\<open>movieproject.py\<close> always return, and an exception the store answers
  the first request with is printed; \<open>find_movies2\<close> of \<^verbatim>\<open>movies2.py\<close> raises it. On
  the document store \<open>delete_movie\<close> and \<open>find_movies\<close> (both versions) raise the
  exception the store answers with. \<open>add_movie\<close> (both versions) and \<open>update_movie\<close>
  raise the exception the store answers their request with, on either store.
\<close>

theorem backend_exceptions_by_path:
  "(db_choice s = ''dynamodb'' \<longrightarrow>
      fst (delete_movie rt n s) = None \<and> fst (delete_movie2 rt n s) = None
      \<and> (\<exists>rs. fst (find_movies rt key val s) = Inr rs))
   \<and> (db_choice s = ''dynamodb'' \<and> faults s = Some e # fs \<longrightarrow>
      stdout (snd (delete_movie rt n s)) = stdout s @ [''Failed to delete movie: '' @ str_of_exn rt e]
      \<and> stdout (snd (find_movies rt key val s))
          = stdout s @ [''Error scanning DynamoDB: '' @ str_of_exn rt e]
      \<and> fst (find_movies2 rt key val s) = Inl e)
   \<and> (db_choice s = ''mongodb'' \<and> faults s = Some e # fs \<longrightarrow>
      fst (delete_movie rt n s) = Some e \<and> fst (delete_movie2 rt n s) = Some e
      \<and> fst (find_movies rt key val s) = Inl e \<and> fst (find_movies2 rt key val s) = Inl e)
   \<and> (faults s = Some e # fs \<and> faults (snd (snd (add_movie rt md s))) = fs \<longrightarrow>
      fst (add_movie rt md s) = Some e)
   \<and> (faults s = Some e # fs \<and> faults (snd (snd (add_movie2 rt md s))) = fs \<longrightarrow>
      fst (add_movie2 rt md s) = Some e)
   \<and> (faults s = Some e # fs \<and> faults (snd (snd (update_movie rt n ud s))) = fs \<longrightarrow>
      fst (update_movie rt n ud s) = Some e)"
proof -
  have caught: "fst (delete_movie rt n s) = None \<and> fst (delete_movie2 rt n s) = None
      \<and> (\<exists>rs. fst (find_movies rt key val s) = Inr rs)"
    if "db_choice s = ''dynamodb''"
    using that delete_movie_dynamo_returns [of s rt n] delete_movie2_same [of rt n s]
      find_movies_dynamo_returns [of s rt key val]
    by simp
  have logged: "stdout (snd (delete_movie rt n s)) = stdout s @ [''Failed to delete movie: '' @ str_of_exn rt e]
      \<and> stdout (snd (find_movies rt key val s))
          = stdout s @ [''Error scanning DynamoDB: '' @ str_of_exn rt e]
      \<and> fst (find_movies2 rt key val s) = Inl e"
    if "db_choice s = ''dynamodb''" "faults s = Some e # fs"
    using that find_movies2_fault [of s e fs rt key val]
    by (simp add: delete_movie_dynamo_fault find_movies_dynamo_fault print_def)
  have raised: "fst (delete_movie rt n s) = Some e \<and> fst (delete_movie2 rt n s) = Some e
      \<and> fst (find_movies rt key val s) = Inl e \<and> fst (find_movies2 rt key val s) = Inl e"
    if "db_choice s = ''mongodb''" "faults s = Some e # fs"
    using that delete_movie_mongo_fault [of s e fs rt n] find_movies_mongo_fault [of s e fs rt key val]
      find_movies2_fault [of s e fs rt key val]
    by simp
  from caught logged raised add_movie_fault [of s e fs rt md] add_movie2_fault [of s e fs rt md]
    update_movie_fault [of s e fs rt n ud]
  show ?thesis by blast
qed

lemma mongo_find_one_served:
  "faults s = [] \<Longrightarrow> regex_i rt pat = Some m \<Longrightarrow>
   mongo_find_one_regex rt key pat s
     = (Inr (map_option project (List.find (\<lambda>d. mongo_regex m (dict_get d key)) (movies s))), s)"
  by (simp add: mongo_find_one_regex_def request_served)

lemma ddb_get_item_served:
  "faults s = [] \<Longrightarrow> ddb_get_item n s = (Inr (List.find (has_name n) (table s)), s)"
  by (simp add: ddb_get_item_def request_served)

text \<open>
  C8. When the request is served, \<open>get_movie_details\<close> on the document store returns the
  first record, in the order of the collection, whose name the pattern matches without
  regard to case (the pattern being the name it was given), and none when no record
  matches; on the key-value store it returns a record whose name is exactly the given
  one, and none when the table has no such record.
\<close>

theorem get_movie_details_lookup:
  "(db_choice s = ''mongodb'' \<and> faults s = [] \<and> regex_i rt n = Some m \<longrightarrow>
      (\<exists>r. get_movie_details rt n s = (Inr r, s)
         \<and> (case r of
              None \<Rightarrow> \<not> list_ex (\<lambda>d. mongo_regex m (dict_get d ''name'')) (movies s)
            | Some d' \<Rightarrow>
                \<exists>i<length (movies s). d' = project (movies s ! i)
                  \<and> mongo_regex m (dict_get (movies s ! i) ''name'')
                  \<and> (\<forall>j<i. \<not> mongo_regex m (dict_get (movies s ! j) ''name'')))))
   \<and> (db_choice s = ''dynamodb'' \<and> faults s = [] \<longrightarrow>
      (\<exists>r. get_movie_details rt n s = (Inr r, s)
         \<and> (case r of
              None \<Rightarrow> \<not> list_ex (\<lambda>d. dict_get d ''name'' = Some (PStr n)) (table s)
            | Some d \<Rightarrow> d \<in> set (table s) \<and> dict_get d ''name'' = Some (PStr n))))"
proof -
  let ?p = "\<lambda>d. mongo_regex m (dict_get d ''name'')"
  have doc: "\<exists>r. get_movie_details rt n s = (Inr r, s)
         \<and> (case r of
              None \<Rightarrow> \<not> list_ex ?p (movies s)
            | Some d' \<Rightarrow>
                \<exists>i<length (movies s). d' = project (movies s ! i) \<and> ?p (movies s ! i)
                  \<and> (\<forall>j<i. \<not> ?p (movies s ! j)))"
    if a: "db_choice s = ''mongodb''" "faults s = []" "regex_i rt n = Some m"
  proof (cases "List.find ?p (movies s)")
    case None
    then have "\<not> list_ex ?p (movies s)"
      by (simp add: find_None_iff list_ex_iff)
    with a None show ?thesis
      by (simp add: get_movie_details_def mongo_find_one_served)
  next
    case (Some d)
    then obtain i where "i < length (movies s)" "?p (movies s ! i)" "d = movies s ! i"
        "\<forall>j<i. \<not> ?p (movies s ! j)"
      unfolding find_Some_iff by blast
    with a Some show ?thesis
      by (auto simp: get_movie_details_def mongo_find_one_served)
  qed
  have kv: "\<exists>r. get_movie_details rt n s = (Inr r, s)
         \<and> (case r of
              None \<Rightarrow> \<not> list_ex (\<lambda>d. dict_get d ''name'' = Some (PStr n)) (table s)
            | Some d \<Rightarrow> d \<in> set (table s) \<and> dict_get d ''name'' = Some (PStr n))"
    if a: "db_choice s = ''dynamodb''" "faults s = []"
  proof (cases "List.find (has_name n) (table s)")
    case None
    then have "\<not> list_ex (\<lambda>d. dict_get d ''name'' = Some (PStr n)) (table s)"
      by (simp add: find_None_iff list_ex_iff has_name_def)
    with a None show ?thesis
      by (simp add: get_movie_details_def ddb_get_item_served)
  next
    case (Some d)
    then have "d \<in> set (table s) \<and> dict_get d ''name'' = Some (PStr n)"
      unfolding find_Some_iff has_name_def by auto
    with a Some show ?thesis
      by (simp add: get_movie_details_def ddb_get_item_served)
  qed
  from doc kv show ?thesis by blast
qed


lemma kv_store_fields:
  "db_choice (kv_store xs) = ''dynamodb''" "faults (kv_store xs) = []" "table (kv_store xs) = xs"
  "movies (kv_store xs) = []" "stdout (kv_store xs) = []"
  by (simp_all add: kv_store_def store0_def)

lemma doc_store_fields:
  "db_choice (doc_store xs) = ''mongodb''" "faults (doc_store xs) = []" "movies (doc_store xs) = xs"
  "table (doc_store xs) = []" "stdout (doc_store xs) = []"
  by (simp_all add: doc_store_def store0_def)

theorem delete_movie_without_match_witness:
  "delete_movie rt0 ''Alien'' (doc_store [doc_dune])
     = (None, print ''No movie found with that name.'' (doc_store [doc_dune]))
   \<and> fst (delete_movie rt0 ''Xanadu'' (kv_store [movie_a])) = None
   \<and> table (snd (delete_movie rt0 ''Xanadu'' (kv_store [movie_a]))) = [movie_a]
   \<and> delete_movie rt0 ''Xanadu'' ((kv_store [movie_a])\<lparr>faults := [Some (BackendError 1)]\<rparr>)
     = (None, print (''Failed to delete movie: '' @ str_of_exn rt0 (BackendError 1))
               ((kv_store [movie_a])\<lparr>faults := []\<rparr>))
   \<and> delete_movie rt0 ''Dune'' ((doc_store [doc_dune])\<lparr>faults := [Some (BackendError 1)]\<rparr>)
     = (Some (BackendError 1), (doc_store [doc_dune])\<lparr>faults := []\<rparr>)"
proof -
  have h1: "\<not> list_ex (named ''Alien'') [doc_dune]" by code_simp
  have h2: "\<not> list_ex (has_name ''Xanadu'') [movie_a]" by code_simp
  show ?thesis
    using delete_movie_without_match [where s = "doc_store [doc_dune]" and n = "''Alien''" and rt = rt0]
      delete_movie_without_match [where s = "kv_store [movie_a]" and n = "''Xanadu''" and rt = rt0]
      delete_movie_without_match [where s = "(kv_store [movie_a])\<lparr>faults := [Some (BackendError 1)]\<rparr>" and n = "''Xanadu''"
          and rt = rt0 and e = "BackendError 1" and fs = "[]"]
      delete_movie_without_match [where s = "(doc_store [doc_dune])\<lparr>faults := [Some (BackendError 1)]\<rparr>" and n = "''Dune''"
          and rt = rt0 and e = "BackendError 1" and fs = "[]"]
      h1 h2
    by (simp add: kv_store_fields doc_store_fields)
qed

theorem backend_exceptions_by_path_witness:
  "fst (delete_movie rt0 ''Alien'' ((kv_store [movie_a])\<lparr>faults := [Some (BackendError 1)]\<rparr>)) = None
   \<and> stdout (snd (find_movies rt0 ''certificate'' ''PG'' ((kv_store [movie_a])\<lparr>faults := [Some (BackendError 1)]\<rparr>)))
       = [''Error scanning DynamoDB: '' @ str_of_exn rt0 (BackendError 1)]
   \<and> fst (find_movies rt0 ''certificate'' ''PG'' ((doc_store [doc_dune])\<lparr>faults := [Some (BackendError 1)]\<rparr>))
       = Inl (BackendError 1)
   \<and> fst (add_movie rt0 [(''name'', PStr ''Dune'')] ((doc_store [])\<lparr>faults := [Some (BackendError 1)]\<rparr>))
       = Some (BackendError 1)
   \<and> fst (update_movie rt0 ''Dune'' [(''rating'', PFloat 9)] ((kv_store [])\<lparr>faults := [Some (BackendError 1)]\<rparr>))
       = Some (BackendError 1)"
proof -
  have h1: "faults (snd (snd (add_movie rt0 [(''name'', PStr ''Dune'')]
      ((doc_store [])\<lparr>faults := [Some (BackendError 1)]\<rparr>)))) = []"
    by code_simp
  have h2: "faults (snd (snd (update_movie rt0 ''Dune'' [(''rating'', PFloat 9)]
      ((kv_store [])\<lparr>faults := [Some (BackendError 1)]\<rparr>)))) = []"
    by code_simp
  show ?thesis
    using backend_exceptions_by_path [where s = "(kv_store [movie_a])\<lparr>faults := [Some (BackendError 1)]\<rparr>" and n = "''Alien''"
          and rt = rt0 and e = "BackendError 1" and fs = "[]" and key = "''certificate''" and val = "''PG''"]
      backend_exceptions_by_path [where s = "(doc_store [doc_dune])\<lparr>faults := [Some (BackendError 1)]\<rparr>" and n = "''Alien''"
          and rt = rt0 and e = "BackendError 1" and fs = "[]" and key = "''certificate''" and val = "''PG''"]
      backend_exceptions_by_path [where s = "(doc_store [])\<lparr>faults := [Some (BackendError 1)]\<rparr>" and rt = rt0
          and e = "BackendError 1" and fs = "[]" and md = "[(''name'', PStr ''Dune'')]"]
      backend_exceptions_by_path [where s = "(kv_store [])\<lparr>faults := [Some (BackendError 1)]\<rparr>" and rt = rt0
          and e = "BackendError 1" and fs = "[]" and n = "''Dune''" and ud = "[(''rating'', PFloat 9)]"]
      h1 h2
    by (simp add: kv_store_fields doc_store_fields)
qed

text \<open>
  C6 as stated fails: with the document store, an exception the store answers with leaves
  \<open>delete_movie\<close> and \<open>find_movies\<close>; neither call has a handler on that branch.
\<close>

theorem document_store_exception_escapes:
  "fst (delete_movie rt0 ''Dune'' ((doc_store [doc_dune])\<lparr>faults := [Some (BackendError 1)]\<rparr>))
     = Some (BackendError 1)
   \<and> fst (find_movies rt0 ''name'' ''Dune'' ((doc_store [doc_dune])\<lparr>faults := [Some (BackendError 1)]\<rparr>))
     = Inl (BackendError 1)"
  by code_simp

theorem get_movie_details_lookup_witness:
  "get_movie_details rt0 ''dune'' (doc_store [doc_dune2, doc_dune])
     = (Inr (Some (project doc_dune2)), doc_store [doc_dune2, doc_dune])
   \<and> get_movie_details rt0 ''Alien'' (kv_store [movie_b, movie_a])
     = (Inr (Some movie_a), kv_store [movie_b, movie_a])
   \<and> get_movie_details rt0 ''alien'' (kv_store [movie_b, movie_a])
     = (Inr None, kv_store [movie_b, movie_a])"
proof -
  have h1: "regex_i rt0 ''dune'' = Some (contains_ci ''dune'')"
    by (simp add: rt0_def literal_regex_i_def metachars_def)
  have h2: "mongo_regex (contains_ci ''dune'') (dict_get doc_dune2 ''name'')" by code_simp
  have h3: "dict_get movie_b ''name'' \<noteq> Some (PStr ''Alien'')"
    "dict_get movie_a ''name'' = Some (PStr ''Alien'')"
    "dict_get movie_b ''name'' \<noteq> Some (PStr ''alien'')"
    "dict_get movie_a ''name'' \<noteq> Some (PStr ''alien'')"
    by code_simp+
  let ?p = "\<lambda>d. mongo_regex (contains_ci ''dune'') (dict_get d ''name'')"
  from get_movie_details_lookup [where s = "doc_store [doc_dune2, doc_dune]" and n = "''dune''" and rt = rt0
        and m = "contains_ci ''dune''"] h1
  obtain r where r: "get_movie_details rt0 ''dune'' (doc_store [doc_dune2, doc_dune])
        = (Inr r, doc_store [doc_dune2, doc_dune])"
    and first: "case r of
        None \<Rightarrow> \<not> list_ex ?p [doc_dune2, doc_dune]
      | Some d' \<Rightarrow> \<exists>i<2. d' = project ([doc_dune2, doc_dune] ! i) \<and> ?p ([doc_dune2, doc_dune] ! i)
          \<and> (\<forall>j<i. \<not> ?p ([doc_dune2, doc_dune] ! j))"
    by (auto simp: doc_store_fields numeral_2_eq_2 cong: option.case_cong)
  have "r = Some (project doc_dune2)"
  proof (cases r)
    case None
    with first h2 show ?thesis by simp
  next
    case (Some d')
    with first obtain i where i: "i < 2" "d' = project ([doc_dune2, doc_dune] ! i)"
        "\<forall>j<i. \<not> ?p ([doc_dune2, doc_dune] ! j)"
      by auto
    have "i = 0"
    proof (rule ccontr)
      assume "i \<noteq> 0"
      with i(3) have "\<not> ?p ([doc_dune2, doc_dune] ! 0)" by blast
      with h2 show False by simp
    qed
    with i Some show ?thesis by simp
  qed
  with r have "get_movie_details rt0 ''dune'' (doc_store [doc_dune2, doc_dune])
     = (Inr (Some (project doc_dune2)), doc_store [doc_dune2, doc_dune])"
    by simp
  moreover
  from get_movie_details_lookup [where s = "kv_store [movie_b, movie_a]" and n = "''Alien''" and rt = rt0] h3
  have "get_movie_details rt0 ''Alien'' (kv_store [movie_b, movie_a])
     = (Inr (Some movie_a), kv_store [movie_b, movie_a])"
    by (auto simp: kv_store_fields split: option.splits)
  moreover
  from get_movie_details_lookup [where s = "kv_store [movie_b, movie_a]" and n = "''alien''" and rt = rt0]
  obtain r' where r': "get_movie_details rt0 ''alien'' (kv_store [movie_b, movie_a])
        = (Inr r', kv_store [movie_b, movie_a])"
    and absent: "case r' of
        None \<Rightarrow> True
      | Some d \<Rightarrow> d \<in> set [movie_b, movie_a] \<and> dict_get d ''name'' = Some (PStr ''alien'')"
    by (auto simp: kv_store_fields split: option.splits)
  from absent h3 have "r' = None"
    by (cases r') auto
  with r' have "get_movie_details rt0 ''alien'' (kv_store [movie_b, movie_a])
     = (Inr None, kv_store [movie_b, movie_a])"
    by simp
  ultimately show ?thesis by simp
qed

lemma find_SomeD: "List.find q xs = Some d \<Longrightarrow> q d \<and> d \<in> set xs"
  by (induction xs) (auto split: if_splits)

lemma find_update_first:
  "List.find q xs = Some d \<Longrightarrow> List.find p xs = Some d \<Longrightarrow> q (f d) \<Longrightarrow>
   List.find q (update_first p f xs) = Some (f d)"
proof (induction xs)
  case Nil
  then show ?case by simp
next
  case (Cons x xs)
  from Cons.prems(1) have qd: "q d" by (rule find_SomeD [THEN conjunct1])
  from Cons.prems(2) have pd: "p d" by (rule find_SomeD [THEN conjunct1])
  show ?case
  proof (cases "x = d")
    case True
    with pd Cons.prems(3) show ?thesis by simp
  next
    case False
    with Cons.prems qd pd have "\<not> q x" "\<not> p x" "List.find q xs = Some d" "List.find p xs = Some d"
      by (auto split: if_splits)
    with Cons.IH Cons.prems(3) show ?thesis by simp
  qed
qed

lemma find_ddb_upsert:
  "List.find (has_name n) xs = Some b \<Longrightarrow> has_name n (set_fields w b) \<Longrightarrow>
   List.find (has_name n) (ddb_upsert n w xs) = Some (set_fields w b)"
proof (induction xs)
  case Nil
  then show ?case by simp
next
  case (Cons x xs)
  show ?case
  proof (cases "has_name n x")
    case True
    with Cons.prems show ?thesis by simp
  next
    case False
    with Cons.prems Cons.IH show ?thesis by simp
  qed
qed

lemma floats_to_Decimal_single:
  "floats_to_Decimal rt [(k, v)] [(k, v)] = [(k, as_Decimal rt v)]"
  by (cases v) (simp_all add: as_Decimal_def dict_set_def)

lemma decimals_to_float_single:
  "decimals_to_float rt [(k, v)] [(k, v)] = [(k, as_float rt v)]"
  by (cases v) (simp_all add: as_float_def dict_set_def)

lemma update_movie_rating_dynamo:
  assumes "db_choice s = ''dynamodb''" "faults s = []" "ddb_value rt (as_Decimal rt r) = Inr r'"
  shows "update_movie rt n [(''rating'', r)] s
    = (None, [(''rating'', as_Decimal rt r)],
       s\<lparr>table := ddb_upsert n [(''rating'', r')] (table s)\<rparr>)"
  using assms
  by (simp add: update_movie_def Let_def ddb_update_item_def request_served
      floats_to_Decimal_single del: floats_to_Decimal.simps)

lemma update_movie_rating_mongo:
  assumes "db_choice s = ''mongodb''" "faults s = []" "bson_ok (as_float rt r)"
  shows "update_movie rt n [(''rating'', r)] s
    = (None, [(''rating'', as_float rt r)],
       s\<lparr>movies := update_first (named n) (set_fields [(''rating'', as_float rt r)]) (movies s)\<rparr>)"
  using assms
  by (simp add: update_movie_def Let_def mongo_update_one_def request_served
      decimals_to_float_single bson_ok_def del: decimals_to_float.simps)

text \<open>
  C5, as the code has it. Let both requests be served and let the new rating be one the
  client of the store accepts (no Decimal for the document store; no number that the
  number context of boto3 refuses for the key-value store). On the key-value store, if the table has a record with the given name,
  \<open>get_movie_details\<close> after \<open>update_movie\<close> with \<^verbatim>\<open>{'rating': r}\<close> returns a record whose
  rating is \<open>r\<close> as the table holds it (a float or int as its Decimal) and whose other
  fields are those of the record before. On the document store the same holds, the rating
  being \<open>r\<close> with a Decimal as its float, provided the first record whose name the
  pattern matches is the first record with exactly that name, which is the record
  \<open>get_movie_details\<close> returned before.
\<close>

theorem update_then_get_rating:
  "(db_choice s = ''dynamodb'' \<and> faults s = [] \<and> List.find (has_name n) (table s) = Some before
      \<and> ddb_value rt (as_Decimal rt r) = Inr r' \<longrightarrow>
      fst (update_movie rt n [(''rating'', r)] s) = None
      \<and> (\<exists>after. fst (get_movie_details rt n (snd (snd (update_movie rt n [(''rating'', r)] s))))
                    = Inr (Some after)
            \<and> dict_get after ''rating'' = Some r'
            \<and> (\<forall>k. k \<noteq> ''rating'' \<longrightarrow> dict_get after k = dict_get before k)))
   \<and> (db_choice s = ''mongodb'' \<and> faults s = [] \<and> regex_i rt n = Some m
      \<and> List.find (\<lambda>d. mongo_regex m (dict_get d ''name'')) (movies s) = Some d
      \<and> List.find (named n) (movies s) = Some d \<and> bson_ok (as_float rt r) \<longrightarrow>
      fst (get_movie_details rt n s) = Inr (Some (project d))
      \<and> fst (update_movie rt n [(''rating'', r)] s) = None
      \<and> (\<exists>after. fst (get_movie_details rt n (snd (snd (update_movie rt n [(''rating'', r)] s))))
                    = Inr (Some after)
            \<and> dict_get after ''rating'' = Some (as_float rt r)
            \<and> (\<forall>k. k \<noteq> ''rating'' \<longrightarrow> dict_get after k = dict_get (project d) k)))"
proof -
  have kv: "fst (update_movie rt n [(''rating'', r)] s) = None
      \<and> (\<exists>after. fst (get_movie_details rt n (snd (snd (update_movie rt n [(''rating'', r)] s))))
                    = Inr (Some after)
            \<and> dict_get after ''rating'' = Some r'
            \<and> (\<forall>k. k \<noteq> ''rating'' \<longrightarrow> dict_get after k = dict_get before k))"
    if a: "db_choice s = ''dynamodb''" "faults s = []"
      "List.find (has_name n) (table s) = Some before" "ddb_value rt (as_Decimal rt r) = Inr r'"
  proof -
    let ?w = "[(''rating'', r')]"
    let ?s1 = "s\<lparr>table := ddb_upsert n ?w (table s)\<rparr>"
    from a(3) have "has_name n before" by (rule find_SomeD [THEN conjunct1])
    then have "has_name n (set_fields ?w before)"
      by (simp add: has_name_def dict_get_set)
    with a(3) have "List.find (has_name n) (ddb_upsert n ?w (table s)) = Some (set_fields ?w before)"
      by (rule find_ddb_upsert)
    with a(1,2) have "get_movie_details rt n ?s1 = (Inr (Some (set_fields ?w before)), ?s1)"
      by (simp add: get_movie_details_def ddb_get_item_served)
    with update_movie_rating_dynamo [OF a(1,2,4), of n] show ?thesis
      by (simp add: dict_get_set)
  qed
  have doc: "fst (get_movie_details rt n s) = Inr (Some (project d))
      \<and> fst (update_movie rt n [(''rating'', r)] s) = None
      \<and> (\<exists>after. fst (get_movie_details rt n (snd (snd (update_movie rt n [(''rating'', r)] s))))
                    = Inr (Some after)
            \<and> dict_get after ''rating'' = Some (as_float rt r)
            \<and> (\<forall>k. k \<noteq> ''rating'' \<longrightarrow> dict_get after k = dict_get (project d) k))"
    if a: "db_choice s = ''mongodb''" "faults s = []" "regex_i rt n = Some m"
      "List.find (\<lambda>d. mongo_regex m (dict_get d ''name'')) (movies s) = Some d"
      "List.find (named n) (movies s) = Some d" "bson_ok (as_float rt r)"
  proof -
    let ?q = "\<lambda>d. mongo_regex m (dict_get d ''name'')"
    let ?f = "set_fields [(''rating'', as_float rt r)]"
    let ?s1 = "s\<lparr>movies := update_first (named n) ?f (movies s)\<rparr>"
    from a(4) have "?q d" by (rule find_SomeD [THEN conjunct1])
    then have "?q (?f d)" by (simp add: dict_get_set)
    with a(4,5) have "List.find ?q (update_first (named n) ?f (movies s)) = Some (?f d)"
      using find_update_first [where q = ?q and p = "named n" and f = ?f and xs = "movies s" and d = d]
      by blast
    with a(1,2,3) have "get_movie_details rt n ?s1 = (Inr (Some (project (?f d))), ?s1)"
      by (simp add: get_movie_details_def mongo_find_one_served)
    moreover from a(1-4) have "fst (get_movie_details rt n s) = Inr (Some (project d))"
      by (simp add: get_movie_details_def mongo_find_one_served)
    ultimately show ?thesis
      using update_movie_rating_mongo [OF a(1,2,6), of n]
      by (simp add: project_def dict_get_del dict_get_set)
  qed
  from kv doc show ?thesis by blast
qed


theorem update_then_get_rating_witness:
  "(\<exists>after. fst (get_movie_details rt0 ''Alien''
        (snd (snd (update_movie rt0 ''Alien'' [(''rating'', PFloat 9)] (kv_store [movie_b, movie_a])))))
        = Inr (Some after)
      \<and> dict_get after ''rating'' = Some (PDecimal 9)
      \<and> dict_get after ''name'' = Some (PStr ''Alien'')
      \<and> dict_get after ''certificate'' = Some (PStr ''PG-13''))
   \<and> (\<exists>after. fst (get_movie_details rt0 ''Dune''
        (snd (snd (update_movie rt0 ''Dune'' [(''rating'', PDecimal 9)] (doc_store [doc_dune, doc_dune2])))))
        = Inr (Some after)
      \<and> dict_get after ''rating'' = Some (PFloat 9)
      \<and> dict_get after ''name'' = Some (PStr ''Dune'')
      \<and> dict_get after ''year'' = Some (PInt 2021))"
proof -
  have k1: "List.find (has_name ''Alien'') [movie_b, movie_a] = Some movie_a" by code_simp
  have k2: "ddb_value rt0 (as_Decimal rt0 (PFloat 9)) = Inr (PDecimal 9)" by code_simp
  have k3: "dict_get movie_a ''name'' = Some (PStr ''Alien'')"
    "dict_get movie_a ''certificate'' = Some (PStr ''PG-13'')"
    by code_simp+
  have d1: "regex_i rt0 ''Dune'' = Some (contains_ci ''Dune'')"
    by (simp add: rt0_def literal_regex_i_def metachars_def)
  have d2: "List.find (\<lambda>d. mongo_regex (contains_ci ''Dune'') (dict_get d ''name'')) [doc_dune, doc_dune2]
      = Some doc_dune"
    by code_simp
  have d3: "List.find (named ''Dune'') [doc_dune, doc_dune2] = Some doc_dune" by code_simp
  have d4: "as_float rt0 (PDecimal 9) = PFloat 9" by code_simp
  have d5: "dict_get (project doc_dune) ''name'' = Some (PStr ''Dune'')"
    "dict_get (project doc_dune) ''year'' = Some (PInt 2021)"
    by code_simp+
  from update_then_get_rating [where s = "kv_store [movie_b, movie_a]" and n = "''Alien''" and rt = rt0
      and r = "PFloat 9" and r' = "PDecimal 9" and before = movie_a] k1 k2 k3
  have kv: "\<exists>after. fst (get_movie_details rt0 ''Alien''
        (snd (snd (update_movie rt0 ''Alien'' [(''rating'', PFloat 9)] (kv_store [movie_b, movie_a])))))
        = Inr (Some after)
      \<and> dict_get after ''rating'' = Some (PDecimal 9)
      \<and> dict_get after ''name'' = Some (PStr ''Alien'')
      \<and> dict_get after ''certificate'' = Some (PStr ''PG-13'')"
    by (auto simp: kv_store_fields)
  from update_then_get_rating [where s = "doc_store [doc_dune, doc_dune2]" and n = "''Dune''" and rt = rt0
      and r = "PDecimal 9" and m = "contains_ci ''Dune''" and d = doc_dune] d1 d2 d3 d4 d5
  have doc: "\<exists>after. fst (get_movie_details rt0 ''Dune''
        (snd (snd (update_movie rt0 ''Dune'' [(''rating'', PDecimal 9)] (doc_store [doc_dune, doc_dune2])))))
        = Inr (Some after)
      \<and> dict_get after ''rating'' = Some (PFloat 9)
      \<and> dict_get after ''name'' = Some (PStr ''Dune'')
      \<and> dict_get after ''year'' = Some (PInt 2021)"
    by (auto simp: doc_store_fields bson_ok_def)
  from kv doc show ?thesis by simp
qed

text \<open>
  C5 as stated fails on the document store: \<open>update_movie\<close> selects by equality of the
  name, \<open>get_movie_details\<close> by a pattern. With \<^verbatim>\<open>Dune: Part Two\<close> stored before
  \<^verbatim>\<open>Dune\<close>, the update of \<^verbatim>\<open>Dune\<close> to rating 9 changes the second record, and the
  lookup of \<^verbatim>\<open>Dune\<close> returns the first, with rating 7.
\<close>

theorem update_then_get_returns_other_record:
  "named ''Dune'' doc_dune
   \<and> fst (update_movie rt0 ''Dune'' [(''rating'', PDecimal 9)] (doc_store [doc_dune2, doc_dune])) = None
   \<and> movies (snd (snd (update_movie rt0 ''Dune'' [(''rating'', PDecimal 9)] (doc_store [doc_dune2, doc_dune]))))
       = [doc_dune2, dict_set doc_dune ''rating'' (PFloat 9)]
   \<and> fst (get_movie_details rt0 ''Dune''
        (snd (snd (update_movie rt0 ''Dune'' [(''rating'', PDecimal 9)] (doc_store [doc_dune2, doc_dune])))))
       = Inr (Some (project doc_dune2))
   \<and> dict_get (project doc_dune2) ''rating'' = Some (PFloat 7)"
  by code_simp

lemma contains_str_iff: "contains_str p s \<longleftrightarrow> (\<exists>ps ss. s = ps @ p @ ss)"
proof (induction s)
  case Nil
  then show ?case by simp
next
  case (Cons c cs)
  show ?case
  proof
    assume "contains_str p (c # cs)"
    then consider "prefix p (c # cs)" | "contains_str p cs" by auto
    then show "\<exists>ps ss. c # cs = ps @ p @ ss"
    proof cases
      case 1
      then obtain ss where "c # cs = p @ ss" by (auto simp: prefix_def)
      then have "c # cs = [] @ p @ ss" by simp
      then show ?thesis by blast
    next
      case 2
      with Cons.IH obtain ps ss where "cs = ps @ p @ ss" by blast
      then have "c # cs = (c # ps) @ p @ ss" by simp
      then show ?thesis by blast
    qed
  next
    assume "\<exists>ps ss. c # cs = ps @ p @ ss"
    then obtain ps ss where eq: "c # cs = ps @ p @ ss" by blast
    show "contains_str p (c # cs)"
    proof (cases ps)
      case Nil
      with eq have "prefix p (c # cs)" by (simp add: prefix_def)
      then show ?thesis by simp
    next
      case (Cons a ps')
      with eq have "cs = ps' @ p @ ss" by simp
      with Cons.IH have "contains_str p cs" by blast
      then show ?thesis by simp
    qed
  qed
qed

lemma set_sort_desc: "set (sort_desc f xs) = set xs"
  by (simp add: sort_desc_def)

lemma length_sort_desc: "length (sort_desc f xs) = length xs"
  by (simp add: sort_desc_def)

lemma selects_take:
  "set ys = set (filter p xs) \<Longrightarrow> length ys = length (filter p xs) \<Longrightarrow> selects (take 20 ys) p xs"
  using set_take_subset [of 20 ys] by (auto simp: selects_def)

lemma selects_all: "selects (filter p xs) p xs"
  by (simp add: selects_def)

lemma float_keys_length: "float_keys rt ds = Inr ks \<Longrightarrow> length ks = length ds"
  by (induction ds arbitrary: ks) (auto split: sum.splits)

lemma set_decorated_sort:
  assumes "length ks = length ys"
  shows "set (map snd (sort_desc fst (zip ks ys))) = set ys"
proof -
  have "set (map snd (sort_desc fst (zip ks ys))) = snd ` set (zip ks ys)"
    by (simp add: set_sort_desc)
  also have "\<dots> = set (map snd (zip ks ys))" by simp
  also from assms have "\<dots> = set ys" by (simp only: map_snd_zip)
  finally show ?thesis .
qed

lemma selects_sorted_top20:
  assumes "sorted_top20 rt (filter p xs) = Inr best"
  shows "selects best p xs"
proof -
  from assms obtain ks where ks: "float_keys rt (filter p xs) = Inr ks"
    and best: "best = take 20 (map snd (sort_desc fst (zip ks (filter p xs))))"
    by (auto simp: sorted_top20_def split: sum.splits)
  from ks have len: "length ks = length (filter p xs)" by (rule float_keys_length)
  then have "set (map snd (sort_desc fst (zip ks (filter p xs)))) = set (filter p xs)"
    by (rule set_decorated_sort)
  moreover from len have "length (map snd (sort_desc fst (zip ks (filter p xs)))) = length (filter p xs)"
    by (simp add: length_sort_desc)
  ultimately show ?thesis unfolding best by (rule selects_take)
qed

lemma selects_mongo_find_sorted:
  "\<exists>ds. mongo_find_sorted p s = map project ds \<and> selects ds p (movies s)"
proof -
  let ?ds = "take 20 (sort_desc rating_sort_key (filter p (movies s)))"
  have "selects ?ds p (movies s)"
    by (rule selects_take) (simp_all add: set_sort_desc length_sort_desc)
  then show ?thesis by (auto simp: mongo_find_sorted_def)
qed

lemma ddb_scan_served:
  "faults s = [] \<Longrightarrow>
   ddb_scan key x rest s
     = (Inr (filter (\<lambda>d. ddb_contains x (dict_get d key)) (take (Suc (page s)) rest),
             drop (Suc (page s)) rest), s)"
  by (simp add: ddb_scan_def request_served)

lemma scan_all_served:
  "faults s = [] \<Longrightarrow>
   scan_all key x rest results s
     = (None, results @ filter (\<lambda>d. ddb_contains x (dict_get d key)) rest, s)"
proof (induction key x rest results s rule: scan_all.induct)
  case (1 key x rest results s)
  let ?p = "\<lambda>d. ddb_contains x (dict_get d key)"
  let ?k = "Suc (page s)"
  have split: "filter ?p (take ?k rest) @ filter ?p (drop ?k rest) = filter ?p rest"
    by (simp flip: filter_append)
  show ?case
  proof (cases "drop ?k rest = []")
    case True
    then have "take ?k rest = rest" by simp
    with True "1.prems" show ?thesis
      by (subst scan_all.simps) (simp add: ddb_scan_served)
  next
    case False
    from "1.prems" have scan: "ddb_scan key x rest s = (Inr (filter ?p (take ?k rest), drop ?k rest), s)"
      by (rule ddb_scan_served)
    from "1.IH" [OF scan [symmetric] refl refl False "1.prems"]
    have "scan_all key x (drop ?k rest) (results @ filter ?p (take ?k rest)) s
        = (None, (results @ filter ?p (take ?k rest)) @ filter ?p (drop ?k rest), s)" .
    with False scan split show ?thesis
      by (subst scan_all.simps) simp
  qed
qed


lemma find_movies_mongo_selects:
  assumes "db_choice s = ''mongodb''" "faults s = []" "regex_i rt val = Some m"
  shows "\<exists>ds. find_movies rt key val s = (Inr (map project ds), s)
           \<and> selects ds (\<lambda>d. mongo_regex m (dict_get d key)) (movies s)"
  using assms selects_mongo_find_sorted [of "\<lambda>d. mongo_regex m (dict_get d key)" s]
  by (auto simp: find_movies_def mongo_find_regex_def request_served)

lemma find_movies2_mongo_selects:
  assumes "db_choice s = ''mongodb''" "faults s = []"
  shows "\<exists>ds. find_movies2 rt key val s = (Inr (map project ds), s)
           \<and> selects ds (\<lambda>d. mongo_eq val (dict_get d key)) (movies s)"
  using assms selects_mongo_find_sorted [of "\<lambda>d. mongo_eq val (dict_get d key)" s]
  by (auto simp: find_movies2_def mongo_find_eq_def request_served)

lemma find_movies_dynamo_selects:
  assumes "db_choice s = ''dynamodb''" "faults s = []"
  shows "\<exists>rs. fst (find_movies rt key val s) = Inr rs
           \<and> selects rs (\<lambda>d. ddb_contains val (dict_get d key)) (table s)"
proof -
  let ?p = "\<lambda>d. ddb_contains val (dict_get d key)"
  from assms(2) have scan: "scan_all key val (table s) [] s = (None, filter ?p (table s), s)"
    by (simp add: scan_all_served)
  show ?thesis
  proof (cases "sorted_top20 rt (filter ?p (table s))")
    case (Inl e)
    with assms scan have "fst (find_movies rt key val s) = Inr (filter ?p (table s))"
      by (simp add: find_movies_def)
    with selects_all [of ?p "table s"] show ?thesis by blast
  next
    case (Inr best)
    with assms scan have "fst (find_movies rt key val s) = Inr best"
      by (simp add: find_movies_def)
    with selects_sorted_top20 [OF Inr] show ?thesis by blast
  qed
qed

lemma find_movies2_dynamo_selects:
  assumes "db_choice s = ''dynamodb''" "faults s = []" "fst (find_movies2 rt key val s) = Inr rs"
  shows "selects rs (\<lambda>d. ddb_contains val (dict_get d key)) (take (Suc (page s)) (table s))"
proof -
  let ?p = "\<lambda>d. ddb_contains val (dict_get d key)"
  let ?page = "take (Suc (page s)) (table s)"
  from assms have "sorted_top20 rt (filter ?p ?page) = Inr rs"
    by (auto simp: find_movies2_def ddb_scan_served split: sum.splits)
  then show ?thesis by (rule selects_sorted_top20)
qed

text \<open>
  C2, as the code has it. When the store serves the requests, \<open>find_movies\<close> returns only
  stored records that pass the filter of the store in use, and all of them when at most
  20 pass. On the document store the filter of \<^verbatim>\<open>movieproject.py\<close> is the search value as
  a pattern matched without regard to case (for a value with no metacharacter and a string
  field: the field contains the value, case ignored), that of \<^verbatim>\<open>movies2.py\<close> is equality
  with the value; the records come back without \<^verbatim>\<open>_id\<close>. On the key-value store the
  filter is \<^verbatim>\<open>contains\<close>, which compares case: a string field has the value as a
  substring, a list field has it as an element; \<^verbatim>\<open>movies2.py\<close> reads the first page of the
  scan only.
\<close>

theorem find_movies_selects_by_backend_filter:
  "(db_choice s = ''mongodb'' \<and> faults s = [] \<and> regex_i rt val = Some m \<longrightarrow>
      (\<exists>ds. find_movies rt key val s = (Inr (map project ds), s)
         \<and> selects ds (\<lambda>d. mongo_regex m (dict_get d key)) (movies s)))
   \<and> (db_choice s = ''mongodb'' \<and> faults s = [] \<longrightarrow>
      (\<exists>ds. find_movies2 rt key val s = (Inr (map project ds), s)
         \<and> selects ds (\<lambda>d. mongo_eq val (dict_get d key)) (movies s)))
   \<and> (db_choice s = ''dynamodb'' \<and> faults s = [] \<longrightarrow>
      (\<exists>rs. fst (find_movies rt key val s) = Inr rs
         \<and> selects rs (\<lambda>d. ddb_contains val (dict_get d key)) (table s)))
   \<and> (db_choice s = ''dynamodb'' \<and> faults s = [] \<and> fst (find_movies2 rt key val s) = Inr rs \<longrightarrow>
      selects rs (\<lambda>d. ddb_contains val (dict_get d key)) (take (Suc (page s)) (table s)))
   \<and> (mongo_regex (contains_ci val) (Some (PStr f)) \<longleftrightarrow> (\<exists>ps ss. lower f = ps @ lower val @ ss))
   \<and> (mongo_eq val (Some (PStr f)) \<longleftrightarrow> f = val)
   \<and> (ddb_contains val (Some (PStr f)) \<longleftrightarrow> (\<exists>ps ss. f = ps @ val @ ss))
   \<and> (ddb_contains val (Some (PList vs)) \<longleftrightarrow> PStr val \<in> set vs)"
proof -
  have filters: "(mongo_regex (contains_ci val) (Some (PStr f)) \<longleftrightarrow> (\<exists>ps ss. lower f = ps @ lower val @ ss))
      \<and> (mongo_eq val (Some (PStr f)) \<longleftrightarrow> f = val)
      \<and> (ddb_contains val (Some (PStr f)) \<longleftrightarrow> (\<exists>ps ss. f = ps @ val @ ss))
      \<and> (ddb_contains val (Some (PList vs)) \<longleftrightarrow> PStr val \<in> set vs)"
    by (simp add: mongo_regex_def mongo_eq_def ddb_contains_def contains_ci_def contains_str_iff)
  from filters find_movies_mongo_selects [of s rt val m key] find_movies2_mongo_selects [of s rt key val]
    find_movies_dynamo_selects [of s rt key val] find_movies2_dynamo_selects [of s rt key val rs]
  show ?thesis by blast
qed

text \<open>
  C2 as stated fails on the key-value store: the table holds a record with certificate
  \<^verbatim>\<open>PG-13\<close>, the search value \<^verbatim>\<open>pg\<close> occurs in it when case is ignored, and both
  versions of \<open>find_movies\<close> return no record.
\<close>

theorem find_movies_key_value_is_case_sensitive:
  "List.member (table (kv_store [movie_a])) movie_a
   \<and> dict_get movie_a ''certificate'' = Some (PStr ''PG-13'')
   \<and> contains_ci ''pg'' ''PG-13''
   \<and> find_movies rt0 ''certificate'' ''pg'' (kv_store [movie_a]) = (Inr [], kv_store [movie_a])
   \<and> find_movies2 rt0 ''certificate'' ''pg'' (kv_store [movie_a]) = (Inr [], kv_store [movie_a])"
  by code_simp

theorem find_movies_selects_by_backend_filter_witness:
  "(\<exists>ds. find_movies rt0 ''certificate'' ''pg'' (doc_store [doc_dune, doc_dune2])
        = (Inr (map project ds), doc_store [doc_dune, doc_dune2]) \<and> set ds = {})
   \<and> (\<exists>ds. find_movies rt0 ''name'' ''part'' (doc_store [doc_dune, doc_dune2])
        = (Inr (map project ds), doc_store [doc_dune, doc_dune2]) \<and> set ds = {doc_dune2})
   \<and> (\<exists>rs. fst (find_movies rt0 ''certificate'' ''PG'' (kv_store [movie_a, movie_b])) = Inr rs
        \<and> set rs = {movie_a, movie_b})"
proof -
  have r1: "regex_i rt0 ''pg'' = Some (contains_ci ''pg'')"
    and r2: "regex_i rt0 ''part'' = Some (contains_ci ''part'')"
    by (simp_all add: rt0_def literal_regex_i_def metachars_def)
  have f1: "filter (\<lambda>d. mongo_regex (contains_ci ''pg'') (dict_get d ''certificate'')) [doc_dune, doc_dune2] = []"
    by code_simp
  have f2: "filter (\<lambda>d. mongo_regex (contains_ci ''part'') (dict_get d ''name'')) [doc_dune, doc_dune2] = [doc_dune2]"
    by code_simp
  have f3: "filter (\<lambda>d. ddb_contains ''PG'' (dict_get d ''certificate'')) [movie_a, movie_b] = [movie_a, movie_b]"
    by code_simp
  from find_movies_selects_by_backend_filter [where s = "doc_store [doc_dune, doc_dune2]" and rt = rt0 and val = "''pg''"
      and m = "contains_ci ''pg''" and key = "''certificate''", THEN conjunct1] r1
  have "\<exists>ds. find_movies rt0 ''certificate'' ''pg'' (doc_store [doc_dune, doc_dune2])
        = (Inr (map project ds), doc_store [doc_dune, doc_dune2])
      \<and> selects ds (\<lambda>d. mongo_regex (contains_ci ''pg'') (dict_get d ''certificate''))
          [doc_dune, doc_dune2]"
    by (simp add: doc_store_fields)
  then have a: "\<exists>ds. find_movies rt0 ''certificate'' ''pg'' (doc_store [doc_dune, doc_dune2])
        = (Inr (map project ds), doc_store [doc_dune, doc_dune2]) \<and> set ds = {}"
    unfolding selects_def f1 by auto
  from find_movies_selects_by_backend_filter [where s = "doc_store [doc_dune, doc_dune2]" and rt = rt0 and val = "''part''"
      and m = "contains_ci ''part''" and key = "''name''", THEN conjunct1] r2
  have "\<exists>ds. find_movies rt0 ''name'' ''part'' (doc_store [doc_dune, doc_dune2])
        = (Inr (map project ds), doc_store [doc_dune, doc_dune2])
      \<and> selects ds (\<lambda>d. mongo_regex (contains_ci ''part'') (dict_get d ''name''))
          [doc_dune, doc_dune2]"
    by (simp add: doc_store_fields)
  then have b: "\<exists>ds. find_movies rt0 ''name'' ''part'' (doc_store [doc_dune, doc_dune2])
        = (Inr (map project ds), doc_store [doc_dune, doc_dune2]) \<and> set ds = {doc_dune2}"
    unfolding selects_def f2 by auto
  from find_movies_selects_by_backend_filter [where s = "kv_store [movie_a, movie_b]" and rt = rt0 and val = "''PG''"
      and key = "''certificate''", THEN conjunct2, THEN conjunct2, THEN conjunct1]
  have "\<exists>rs. fst (find_movies rt0 ''certificate'' ''PG'' (kv_store [movie_a, movie_b])) = Inr rs
      \<and> selects rs (\<lambda>d. ddb_contains ''PG'' (dict_get d ''certificate'')) [movie_a, movie_b]"
    by (simp add: kv_store_fields)
  then have c: "\<exists>rs. fst (find_movies rt0 ''certificate'' ''PG'' (kv_store [movie_a, movie_b])) = Inr rs
        \<and> set rs = {movie_a, movie_b}"
    unfolding selects_def f3 by auto
  from a b c show ?thesis by simp
qed

subsection \<open>The paths of \<open>find_movies\<close> that sort\<close>

text \<open>
  What the handler misses holds on every other path. On the document store both versions
  return at most 20 records in descending order of the store's rating key. On the
  key-value store \<open>find_movies2\<close> returns, when it returns, at most 20 records in
  descending order of the float of their rating, and so does \<open>find_movies\<close> when the
  requests are served and every record that passes the filter has a rating that
  \<^verbatim>\<open>float\<close> accepts.
\<close>

lemma sort_desc_descending: "sorted_wrt (\<ge>) (map f (sort_desc f xs))"
proof -
  have "sorted (map f (sort_key f (rev xs)))" by (rule sorted_sort_key)
  then have "sorted_wrt (\<lambda>x y. y \<le> x) (rev (map f (sort_key f (rev xs))))"
    by (simp add: sorted_wrt_rev)
  then show ?thesis by (simp add: sort_desc_def rev_map)
qed

lemma rating_sort_key_project: "rating_sort_key (project d) = rating_sort_key d"
  by (simp add: rating_sort_key_def project_def dict_get_del)

lemma mongo_find_sorted_descending:
  "length (mongo_find_sorted p s) \<le> 20
   \<and> sorted_wrt (\<ge>) (map rating_sort_key (mongo_find_sorted p s))"
proof -
  let ?ds = "sort_desc rating_sort_key (filter p (movies s))"
  have "sorted_wrt (\<ge>) (take 20 (map rating_sort_key ?ds))"
    using sort_desc_descending [of rating_sort_key "filter p (movies s)"]
    by (rule sorted_wrt_take)
  then show ?thesis
    by (simp add: mongo_find_sorted_def take_map o_def rating_sort_key_project)
qed

lemma float_keys_zip:
  "float_keys rt ds = Inr ks \<Longrightarrow> \<forall>kd\<in>set (zip ks ds). float_rating rt (snd kd) = Inr (fst kd)"
  by (induction ds arbitrary: ks) (auto simp: float_rating_def split: sum.splits)

lemma float_keys_unzip:
  "\<forall>kd\<in>set zs. float_rating rt (snd kd) = Inr (fst kd) \<Longrightarrow>
   float_keys rt (map snd zs) = Inr (map fst zs)"
  by (induction zs) (auto simp: float_rating_def split: sum.splits)

lemma sorted_top20_descending:
  assumes "sorted_top20 rt items = Inr best"
  shows "length best \<le> 20 \<and> (\<exists>ks. float_keys rt best = Inr ks \<and> sorted_wrt (\<ge>) ks)"
proof -
  from assms obtain ks where ks: "float_keys rt items = Inr ks"
    and best: "best = take 20 (map snd (sort_desc fst (zip ks items)))"
    by (auto simp: sorted_top20_def split: sum.splits)
  let ?zs = "sort_desc fst (zip ks items)"
  from float_keys_zip [OF ks] have "\<forall>kd\<in>set (take 20 ?zs). float_rating rt (snd kd) = Inr (fst kd)"
    using set_take_subset [of 20 ?zs] by (auto simp: set_sort_desc)
  then have "float_keys rt (map snd (take 20 ?zs)) = Inr (map fst (take 20 ?zs))"
    by (rule float_keys_unzip)
  moreover have "sorted_wrt (\<ge>) (take 20 (map fst ?zs))"
    using sort_desc_descending [of fst "zip ks items"] by (rule sorted_wrt_take)
  ultimately show ?thesis
    unfolding best by (auto simp: take_map)
qed

lemma find_movies_sorted_unless_handler:
  "(db_choice s = ''mongodb'' \<and> fst (find_movies rt key val s) = Inr rs \<longrightarrow>
      length rs \<le> 20 \<and> sorted_wrt (\<ge>) (map rating_sort_key rs))
   \<and> (db_choice s = ''mongodb'' \<and> fst (find_movies2 rt key val s) = Inr rs \<longrightarrow>
      length rs \<le> 20 \<and> sorted_wrt (\<ge>) (map rating_sort_key rs))
   \<and> (db_choice s = ''dynamodb'' \<and> fst (find_movies2 rt key val s) = Inr rs \<longrightarrow>
      length rs \<le> 20 \<and> (\<exists>ks. float_keys rt rs = Inr ks \<and> sorted_wrt (\<ge>) ks))
   \<and> (db_choice s = ''dynamodb'' \<and> faults s = []
        \<and> sorted_top20 rt (filter (\<lambda>d. ddb_contains val (dict_get d key)) (table s)) = Inr rs \<longrightarrow>
      find_movies rt key val s = (Inr rs, s)
      \<and> length rs \<le> 20 \<and> (\<exists>ks. float_keys rt rs = Inr ks \<and> sorted_wrt (\<ge>) ks))"
proof -
  have a: "length rs \<le> 20 \<and> sorted_wrt (\<ge>) (map rating_sort_key rs)"
    if "db_choice s = ''mongodb''" "fst (find_movies rt key val s) = Inr rs"
    using that mongo_find_sorted_descending
    by (auto simp: find_movies_def mongo_find_regex_def split: prod.splits option.splits)
  have b: "length rs \<le> 20 \<and> sorted_wrt (\<ge>) (map rating_sort_key rs)"
    if "db_choice s = ''mongodb''" "fst (find_movies2 rt key val s) = Inr rs"
    using that mongo_find_sorted_descending
    by (auto simp: find_movies2_def mongo_find_eq_def split: prod.splits option.splits)
  have c: "length rs \<le> 20 \<and> (\<exists>ks. float_keys rt rs = Inr ks \<and> sorted_wrt (\<ge>) ks)"
    if "db_choice s = ''dynamodb''" "fst (find_movies2 rt key val s) = Inr rs"
  proof -
    from that obtain items where "sorted_top20 rt items = Inr rs"
      by (auto simp: find_movies2_def split: prod.splits sum.splits)
    then show ?thesis by (rule sorted_top20_descending)
  qed
  have d: "find_movies rt key val s = (Inr rs, s)
      \<and> length rs \<le> 20 \<and> (\<exists>ks. float_keys rt rs = Inr ks \<and> sorted_wrt (\<ge>) ks)"
    if "db_choice s = ''dynamodb''" "faults s = []"
      "sorted_top20 rt (filter (\<lambda>d. ddb_contains val (dict_get d key)) (table s)) = Inr rs"
    using that sorted_top20_descending [OF that(3)]
    by (simp add: find_movies_def scan_all_served)
  from a b c d show ?thesis by blast
qed

subsection \<open>Numbers the client of the key-value store refuses\<close>

text \<open>
  \<open>update_movie\<close> on the key-value store passes a Decimal on as it is. When the number
  context refuses it, the serializer raises before any request is sent, and the table is
  left as it was. The form builds such a Decimal from most floats: \<^verbatim>\<open>Decimal(8.1)\<close> is
  the exact value of the float, \<open>4559894622712627 / 2 ^ 49\<close>.
\<close>

lemma update_movie_refused_number:
  "db_choice s = ''dynamodb'' \<Longrightarrow> \<not> ddb_number_ok rt d \<Longrightarrow>
   update_movie rt n [(''rating'', PDecimal d)] s = (Some DecimalSignal, [(''rating'', PDecimal d)], s)"
  by (simp add: update_movie_def Let_def ddb_update_item_def)

lemma update_movie_refuses_exact_float:
  "update_movie rt0 ''Alien'' [(''rating'', PDecimal (4559894622712627 / 562949953421312))]
     (kv_store [movie_a])
   = (Some DecimalSignal, [(''rating'', PDecimal (4559894622712627 / 562949953421312))],
      kv_store [movie_a])"
  by code_simp

subsection \<open>What \<open>delete_movie2\<close> prints\<close>

lemma delete_movie2_dynamo_fault:
  "db_choice s = ''dynamodb'' \<Longrightarrow> faults s = Some e # fs \<Longrightarrow>
   delete_movie2 rt n s
     = (None, print (''Failed to delete movie: '' @ str_of_exn rt e) (s\<lparr>faults := fs\<rparr>))"
  by (simp add: delete_movie2_def ddb_delete_item_def request_answer)

end
